theory Spec2Isabelle
  imports Complex_Main "HOL-Library.Sublist"
begin

text \<open>
  The approval workflow of personal expenses (\<^verbatim>\<open>routes/personalExpenses.js\<close>) and the two
  reports that add up the ledger (\<^verbatim>\<open>routes/reports.js\<close>, \<^verbatim>\<open>routes/expenses.js\<close>), as functions
  on the collections of the database. A handler takes the database and returns its answer and
  the database it leaves; what it reads from outside (the clock, a fresh identifier, whether a
  write to the audit or notification collection succeeds) comes in a record. The caller is the
  user that \<^verbatim>\<open>authenticateToken\<close> has put into the request; handlers run one after the other.
\<close>

section \<open>Numbers, identifiers and text\<close>

text \<open>
  A JavaScript Number. Finite doubles are idealised as exact rationals (no binary rounding,
  no signed zero); the two infinities and NaN are kept, because the routes let them through:
  \<^verbatim>\<open>Number("Infinity")\<close> and the JSON literal \<^verbatim>\<open>1e999\<close> are both \<open>PosInf\<close>.
\<close>

datatype jsnum = NaN | PosInf | NegInf | Fin rat

text \<open>The operator \<^verbatim>\<open>+\<close> on Numbers.\<close>

fun js_add :: "jsnum \<Rightarrow> jsnum \<Rightarrow> jsnum" where
  "js_add NaN _ = NaN"
| "js_add _ NaN = NaN"
| "js_add (Fin a) (Fin b) = Fin (a + b)"
| "js_add PosInf NegInf = NaN"
| "js_add NegInf PosInf = NaN"
| "js_add PosInf _ = PosInf"
| "js_add _ PosInf = PosInf"
| "js_add NegInf _ = NegInf"
| "js_add _ NegInf = NegInf"

fun js_neg :: "jsnum \<Rightarrow> jsnum" where
  "js_neg NaN = NaN"
| "js_neg PosInf = NegInf"
| "js_neg NegInf = PosInf"
| "js_neg (Fin a) = Fin (- a)"

definition js_sub :: "jsnum \<Rightarrow> jsnum \<Rightarrow> jsnum" where
  "js_sub a b = js_add a (js_neg b)"

text \<open>\<^verbatim>\<open>sum / providedAmounts.length\<close>: a Number divided by a list length.\<close>

definition js_div_length :: "jsnum \<Rightarrow> nat \<Rightarrow> jsnum" where
  "js_div_length x n =
     (case x of
        Fin a \<Rightarrow>
          (if n = 0 then (if a = 0 then NaN else if 0 < a then PosInf else NegInf)
           else Fin (a / of_nat n))
      | _ \<Rightarrow> x)"

text \<open>\<^verbatim>\<open>Math.round\<close>: the nearest integer, a tie going towards plus infinity.\<close>

definition Math_round :: "jsnum \<Rightarrow> jsnum" where
  "Math_round x = (case x of Fin a \<Rightarrow> Fin (of_int \<lfloor>a + 1 / 2\<rfloor>) | _ \<Rightarrow> x)"

text \<open>Strict equality \<^verbatim>\<open>===\<close> on Numbers: NaN equals nothing.\<close>

definition js_strict_eq :: "jsnum \<Rightarrow> jsnum \<Rightarrow> bool" where
  "js_strict_eq a b = (a \<noteq> NaN \<and> a = b)"

text \<open>\<^verbatim>\<open>x || 0\<close> on a Number: the falsy Numbers are 0 and NaN.\<close>

definition or_zero :: "jsnum \<Rightarrow> jsnum" where
  "or_zero x = (if x = NaN \<or> x = Fin 0 then Fin 0 else x)"

text \<open>The accumulator \<^verbatim>\<open>$sum\<close> of an aggregation pipeline.\<close>

definition js_sum :: "jsnum list \<Rightarrow> jsnum" where
  "js_sum xs = foldl js_add (Fin 0) xs"

text \<open>
  An ObjectId is a number below \<open>16 ^ 24\<close>; \<open>oid_str\<close> is its string form, the 24
  lower-case hexadecimal digits that a template literal \<^verbatim>\<open>`${pe._id}`\<close> produces.
\<close>

type_synonym oid = nat

type_synonym time = int

definition hex_digit :: "nat \<Rightarrow> char" where
  "hex_digit n = ''0123456789abcdef'' ! (n mod 16)"

fun hex_n :: "nat \<Rightarrow> nat \<Rightarrow> string" where
  "hex_n 0 v = []"
| "hex_n (Suc k) v = hex_n k (v div 16) @ [hex_digit (v mod 16)]"

definition oid_str :: "oid \<Rightarrow> string" where
  "oid_str i = hex_n 24 i"

text \<open>
  Regular expressions of the queries. Every pattern the routes build is a literal (hexadecimal
  digits, or a fixed English phrase), so a match is a search for a substring, or for a prefix
  when the pattern is anchored; the flag \<^verbatim>\<open>i\<close> folds the ASCII letters.
\<close>

definition toLower :: "char \<Rightarrow> char" where
  "toLower c =
     (case map_of (zip ''ABCDEFGHIJKLMNOPQRSTUVWXYZ'' ''abcdefghijklmnopqrstuvwxyz'') c of
        Some d \<Rightarrow> d
      | None \<Rightarrow> c)"

fun contains :: "string \<Rightarrow> string \<Rightarrow> bool" where
  "contains p [] = (p = [])"
| "contains p (x # xs) = (prefix p (x # xs) \<or> contains p xs)"

definition regex_i :: "string \<Rightarrow> string \<Rightarrow> bool" where
  "regex_i p s = contains (map toLower p) (map toLower s)"

section \<open>Documents\<close>

datatype status = Draft | Pending | Approved | Rejected | Cancelled

datatype decision = Approve | Reject

datatype role = RoleUser | AdminA | AdminB | Superadmin | Guest

text \<open>The authenticated caller \<^verbatim>\<open>req.user\<close>, and a document of the User collection.\<close>

record user =
  u_id :: oid
  u_role :: role

text \<open>PersonalExpenseSchema, with the two timestamps that \<^verbatim>\<open>timestamps: true\<close> adds.\<close>

record personal_expense =
  pe_id :: oid
  pe_user :: oid
  pe_title :: string
  pe_description :: string
  pe_category :: "oid option"
  pe_amount_min :: jsnum
  pe_amount_avg :: jsnum
  pe_amount_max :: jsnum
  pe_requested_amount :: "jsnum option"
  pe_unit :: "string option"
  pe_start_date :: "time option"
  pe_end_date :: "time option"
  pe_status :: status
  pe_attachments :: "string list"
  required_admins_count :: nat
  approvals_count :: nat
  pe_approved_amount :: "jsnum option"
  pe_approved_at :: "time option"
  pe_createdAt :: time
  pe_updatedAt :: time

text \<open>
  ApprovalSchema. The free-text comment is left out: no decision of the engine reads it.
\<close>

record approval =
  ap_personal_expense :: oid
  ap_admin_user :: oid
  ap_decision :: decision
  ap_decided_at :: time
  ap_approved_amount :: "jsnum option"

text \<open>ExpenseEntrySchema: only the creator and the date always have a value.\<close>

record expense_entry =
  ee_id :: oid
  ee_record_id :: "oid option"
  ee_category :: "oid option"
  ee_title :: "string option"
  ee_amount_min :: "jsnum option"
  ee_amount_avg :: "jsnum option"
  ee_amount_max :: "jsnum option"
  ee_actual_amount :: "jsnum option"
  ee_unit :: "string option"
  ee_note :: "string option"
  ee_date :: time
  ee_created_by :: oid

record income_entry =
  ie_source_name :: string
  ie_amount :: jsnum
  ie_date :: time

text \<open>AuditLogSchema without the free-form \<^verbatim>\<open>meta\<close>.\<close>

record audit_log =
  al_entity_type :: string
  al_entity_id :: oid
  al_action :: string
  al_performed_by :: "oid option"
  al_timestamp :: time

record notification =
  n_user :: oid
  n_title :: string

text \<open>The collections of the database.\<close>

record state =
  users :: "user list"
  personal_expenses :: "personal_expense list"
  approvals :: "approval list"
  expense_entries :: "expense_entry list"
  income_entries :: "income_entry list"
  audit_logs :: "audit_log list"
  notifications :: "notification list"

text \<open>
  What a request handler takes from outside the database: the clock (\<^verbatim>\<open>new Date()\<close>),
  the identifier the driver gives to a document created by the handler, and whether a write to
  the audit collection or to the notification collection goes through.
\<close>

record env =
  now :: time
  new_id :: oid
  audit_ok :: "audit_log \<Rightarrow> bool"
  notify_ok :: "notification \<Rightarrow> bool"

text \<open>
  The outcomes of a route: 404, 403 "not owner", 403 of \<^verbatim>\<open>permit\<close> or of the approvals
  listing, 400 for a status that forbids the operation, 400 for a malformed body, 500.
\<close>

datatype error = NotFound | NotOwner | Forbidden | InvalidState | ValidationError | ServerError

text \<open>
  The route parameter \<^verbatim>\<open>:id\<close> as \<^verbatim>\<open>isValidObjectId\<close> and the cast of
  \<^verbatim>\<open>findById\<close> see it: a string that is no ObjectId, or the ObjectId it denotes.
\<close>

datatype id_param = MalformedId | ObjectId oid

text \<open>
  The body field \<^verbatim>\<open>approved_amount\<close> as the route reads it: compared with
  \<^verbatim>\<open>undefined\<close> and \<^verbatim>\<open>null\<close>, and otherwise only through \<^verbatim>\<open>Number(rawApproved)\<close>,
  which is the argument of \<open>RawValue\<close>.
\<close>

datatype raw_amount = RawUndefined | RawNull | RawValue jsnum

record decide_body =
  b_decision :: string
  b_approved_amount :: raw_amount

datatype decide_message = MsgRejected | MsgApprovedFinal jsnum | MsgStillPending nat nat

record decide_response =
  r_item :: personal_expense
  r_approval :: approval
  r_message :: decide_message

text \<open>
  A body field of a create or an edit: not sent (\<^verbatim>\<open>undefined\<close>), sent with a value the schema
  refuses when the document is saved (a cast or a validator fails and \<^verbatim>\<open>save\<close> throws), or
  sent with a value of the path's type.
\<close>

datatype 'a field = Undefined | Uncastable | Value 'a

record edit_body =
  e_title :: "string field"
  e_description :: "string field"
  e_category :: "oid option field"
  e_amount_min :: "jsnum field"
  e_amount_avg :: "jsnum field"
  e_amount_max :: "jsnum field"
  e_requested_amount :: "jsnum option field"
  e_start_date :: "time option field"
  e_end_date :: "time option field"
  e_attachments :: "string list field"

text \<open>
  The outcome of the category resolution of a create (a lookup in the category collection,
  which is outside this development): no category, the category found or created, or an
  ObjectId that names no category.
\<close>

datatype category_lookup = NoCategory | CategoryFound oid | CategoryMissing

record create_body =
  c_title :: "string option"
  c_description :: "string option"
  c_category :: category_lookup
  c_amount_min :: "jsnum option"
  c_amount_avg :: "jsnum option"
  c_amount_max :: "jsnum option"
  c_requested_amount :: "jsnum option"
  c_start_date :: "time option"
  c_end_date :: "time option"
  c_attachments :: "string list option"

section \<open>Helpers of the routes\<close>

text \<open>
  \<^verbatim>\<open>createAudit\<close>: the write sits in a \<^verbatim>\<open>try\<close> whose \<^verbatim>\<open>catch\<close> only logs, so a failed write
  leaves the state as it was and returns normally.
\<close>

definition createAudit :: "env \<Rightarrow> state \<Rightarrow> string \<Rightarrow> oid \<Rightarrow> string \<Rightarrow> oid option \<Rightarrow> state" where
  "createAudit env st entity_type entity_id action performed_by =
     (let a = \<lparr>al_entity_type = entity_type, al_entity_id = entity_id, al_action = action,
               al_performed_by = performed_by, al_timestamp = now env\<rparr>
      in if audit_ok env a then st\<lparr>audit_logs := audit_logs st @ [a]\<rparr> else st)"

text \<open>\<^verbatim>\<open>Notification.create\<close> inside its own \<^verbatim>\<open>try\<close>/\<^verbatim>\<open>catch\<close>.\<close>

definition notify :: "env \<Rightarrow> state \<Rightarrow> oid \<Rightarrow> string \<Rightarrow> state" where
  "notify env st target title =
     (let n = \<lparr>n_user = target, n_title = title\<rparr>
      in if notify_ok env n then st\<lparr>notifications := notifications st @ [n]\<rparr> else st)"

definition permit :: "role list \<Rightarrow> user \<Rightarrow> bool" where
  "permit allowed u = (u_role u \<in> set allowed)"

definition findById :: "personal_expense list \<Rightarrow> oid \<Rightarrow> personal_expense option" where
  "findById docs i = find (\<lambda>p. pe_id p = i) docs"

text \<open>
  \<^verbatim>\<open>pe.save()\<close>: the document replaces the stored one of the same identifier, and
  \<^verbatim>\<open>updatedAt\<close> moves to the clock when a path was modified since the document was read.
\<close>

definition PersonalExpense_save ::
  "env \<Rightarrow> state \<Rightarrow> personal_expense \<Rightarrow> personal_expense \<Rightarrow> personal_expense \<times> state" where
  "PersonalExpense_save env st old new =
     (let saved = (if new = old then new else new\<lparr>pe_updatedAt := now env\<rparr>)
      in (saved,
          st\<lparr>personal_expenses :=
                map (\<lambda>p. if pe_id p = pe_id saved then saved else p) (personal_expenses st)\<rparr>))"

text \<open>The cast of a Number path: NaN is refused, every other Number is stored.\<close>

definition castable :: "jsnum \<Rightarrow> bool" where
  "castable x = (x \<noteq> NaN)"

definition castable_opt :: "jsnum option \<Rightarrow> bool" where
  "castable_opt x = (case x of None \<Rightarrow> True | Some v \<Rightarrow> castable v)"

section \<open>The consensus engine: \<^verbatim>\<open>POST /:id/approve\<close>\<close>

definition parse_decision :: "string \<Rightarrow> decision option" where
  "parse_decision s =
     (if s = ''approve'' then Some Approve else if s = ''reject'' then Some Reject else None)"

text \<open>The two early returns on \<^verbatim>\<open>approved_amount\<close> of an approve decision.\<close>

definition approved_amount_rejected :: "raw_amount \<Rightarrow> bool" where
  "approved_amount_rejected raw =
     (case raw of RawUndefined \<Rightarrow> True | RawNull \<Rightarrow> True | RawValue n \<Rightarrow> n = NaN)"

text \<open>The normalised \<^verbatim>\<open>approved_amount\<close>: a Number, or \<^verbatim>\<open>null\<close>.\<close>

definition normalized_amount :: "raw_amount \<Rightarrow> jsnum option" where
  "normalized_amount raw = (case raw of RawValue n \<Rightarrow> Some n | _ \<Rightarrow> None)"

definition same_vote :: "oid \<Rightarrow> oid \<Rightarrow> approval \<Rightarrow> bool" where
  "same_vote rid aid a = (ap_personal_expense a = rid \<and> ap_admin_user a = aid)"

fun update_first :: "('a \<Rightarrow> bool) \<Rightarrow> 'a \<Rightarrow> 'a list \<Rightarrow> 'a list" where
  "update_first P y [] = []"
| "update_first P y (x # xs) = (if P x then y # xs else x # update_first P y xs)"

text \<open>
  \<^verbatim>\<open>Approval.create\<close>, and \<^verbatim>\<open>findOneAndUpdate\<close> when the unique index on
  (personal_expense, admin_user) answers with the duplicate-key error 11000: a row of this
  admin for this request is overwritten in place, otherwise a row is added.
\<close>

definition Approval_create_or_update ::
  "time \<Rightarrow> approval list \<Rightarrow> oid \<Rightarrow> oid \<Rightarrow> decision \<Rightarrow> jsnum option \<Rightarrow> approval \<times> approval list" where
  "Approval_create_or_update t rows rid aid d amount =
     (case find (same_vote rid aid) rows of
        None \<Rightarrow>
          (let a = \<lparr>ap_personal_expense = rid, ap_admin_user = aid, ap_decision = d,
                    ap_decided_at = t, ap_approved_amount = amount\<rparr>
           in (a, rows @ [a]))
      | Some old \<Rightarrow>
          (let a = old\<lparr>ap_decision := d, ap_decided_at := t, ap_approved_amount := amount\<rparr>
           in (a, update_first (same_vote rid aid) a rows)))"

text \<open>The rows that \<^verbatim>\<open>Approval.find({personal_expense, decision: "approve"})\<close> returns.\<close>

definition approve_rows :: "state \<Rightarrow> oid \<Rightarrow> approval list" where
  "approve_rows st rid =
     filter (\<lambda>a. ap_personal_expense a = rid \<and> ap_decision a = Approve) (approvals st)"

text \<open>
  \<^verbatim>\<open>uniqueApprovers\<close>: \<^verbatim>\<open>populate\<close> leaves \<^verbatim>\<open>admin_user\<close> null when the user document is
  gone, and those rows are filtered out before the identifiers go into the Set.
\<close>

definition uniqueApprovers :: "state \<Rightarrow> approval list \<Rightarrow> oid list" where
  "uniqueApprovers st rows =
     remdups (filter (\<lambda>i. i \<in> u_id ` set (users st)) (map ap_admin_user rows))"

definition providedAmounts :: "approval list \<Rightarrow> jsnum list" where
  "providedAmounts rows = List.map_filter ap_approved_amount rows"

definition finalApprovedAmount :: "jsnum list \<Rightarrow> personal_expense \<Rightarrow> jsnum" where
  "finalApprovedAmount provided pe =
     (case provided of
        v0 # _ \<Rightarrow>
          (if list_all (\<lambda>v. js_strict_eq v v0) provided then v0
           else Math_round (js_div_length (foldl js_add (Fin 0) provided) (length provided)))
      | [] \<Rightarrow>
          (case pe_requested_amount pe of
             Some r \<Rightarrow> r
           | None \<Rightarrow> or_zero (pe_amount_avg pe)))"

text \<open>\<^verbatim>\<open>pe.required_admins_count || 2\<close>.\<close>

definition required_admins :: "personal_expense \<Rightarrow> nat" where
  "required_admins pe = (if required_admins_count pe = 0 then 2 else required_admins_count pe)"

subsection \<open>The ledger materializer\<close>

text \<open>\<^verbatim>\<open>{ note: { $regex: new RegExp(`${pe._id}`, "i") } }\<close>.\<close>

definition tagged_with :: "oid \<Rightarrow> expense_entry \<Rightarrow> bool" where
  "tagged_with rid e = (case ee_note e of None \<Rightarrow> False | Some n \<Rightarrow> regex_i (oid_str rid) n)"

definition entry_castable :: "expense_entry \<Rightarrow> bool" where
  "entry_castable e =
     (castable_opt (ee_amount_min e) \<and> castable_opt (ee_amount_avg e) \<and>
      castable_opt (ee_amount_max e) \<and> castable_opt (ee_actual_amount e))"

text \<open>The document handed to \<^verbatim>\<open>ExpenseEntry.create\<close> for an approved request.\<close>

definition materialized_entry :: "env \<Rightarrow> user \<Rightarrow> personal_expense \<Rightarrow> jsnum \<Rightarrow> expense_entry" where
  "materialized_entry env actor pe finalApproved =
     \<lparr>ee_id = new_id env, ee_record_id = None, ee_category = pe_category pe,
      ee_title = Some (''[Personal] '' @ pe_title pe),
      ee_amount_min = Some (pe_amount_min pe),
      ee_amount_avg = Some (pe_amount_avg pe),
      ee_amount_max = Some (pe_amount_max pe),
      ee_actual_amount = Some finalApproved,
      ee_unit = (case pe_unit pe of None \<Rightarrow> None | Some u \<Rightarrow> if u = [] then None else Some u),
      ee_note = Some (''Approved personal expense (id: '' @ oid_str (pe_id pe) @ '')''),
      ee_date = (case pe_approved_at pe of Some t \<Rightarrow> t | None \<Rightarrow> now env),
      ee_created_by = u_id actor\<rparr>"

text \<open>
  The block that creates the global ExpenseEntry of an approved request. An entry whose note
  holds the identifier stops it; a throw of \<^verbatim>\<open>ExpenseEntry.create\<close> is caught and logged.
\<close>

definition materialize :: "env \<Rightarrow> state \<Rightarrow> user \<Rightarrow> personal_expense \<Rightarrow> jsnum \<Rightarrow> state" where
  "materialize env st actor pe finalApproved =
     (case find (tagged_with (pe_id pe)) (expense_entries st) of
        None \<Rightarrow>
          (let ee = materialized_entry env actor pe finalApproved
           in if \<not> entry_castable ee then st
              else createAudit env (st\<lparr>expense_entries := expense_entries st @ [ee]\<rparr>)
                     ''expense_entry'' (ee_id ee) ''created_from_personal_approval''
                     (Some (u_id actor)))
      | Some existing \<Rightarrow> st)"

subsection \<open>The two branches of a recorded decision\<close>

definition reject_final ::
  "env \<Rightarrow> state \<Rightarrow> user \<Rightarrow> personal_expense \<Rightarrow> approval \<Rightarrow> (error + decide_response) \<times> state" where
  "reject_final env st actor pe approval =
     (let approveCount = length (approve_rows st (pe_id pe));
          (pe1, st1) = PersonalExpense_save env st pe
                         (pe\<lparr>pe_status := Rejected, approvals_count := approveCount\<rparr>);
          st2 = createAudit env st1 ''personal_expense'' (pe_id pe) ''rejected_final''
                  (Some (u_id actor));
          st3 = notify env st2 (pe_user pe) ''Your personal expense request was rejected'';
          st4 = createAudit env st3 ''notification'' (pe_id pe) ''notify_owner_rejected''
                  (Some (u_id actor))
      in (Inr \<lparr>r_item = pe1, r_approval = approval, r_message = MsgRejected\<rparr>, st4))"

text \<open>
  Quorum reached. A final amount of NaN makes \<^verbatim>\<open>pe.save()\<close> throw, and the route answers 500
  after the writes made so far.
\<close>

definition finalize ::
  "env \<Rightarrow> state \<Rightarrow> user \<Rightarrow> personal_expense \<Rightarrow> approval \<Rightarrow> approval list \<Rightarrow>
     (error + decide_response) \<times> state" where
  "finalize env st actor pe approval rows =
     (let final = finalApprovedAmount (providedAmounts rows) pe;
          pe2 = pe\<lparr>pe_status := Approved, pe_approved_amount := Some final,
                   pe_approved_at := Some (now env), approvals_count := length rows\<rparr>
      in if \<not> castable final then (Inl ServerError, st)
         else
           (let (pe3, st1) = PersonalExpense_save env st pe pe2;
                st2 = createAudit env st1 ''personal_expense'' (pe_id pe) ''approved_final''
                        (Some (u_id actor));
                st3 = notify env st2 (pe_user pe) ''Your personal expense request was approved'';
                st4 = createAudit env st3 ''notification'' (pe_id pe) ''notify_owner_approved''
                        (Some (u_id actor));
                st5 = materialize env st4 actor pe3 final
            in (Inr \<lparr>r_item = pe3, r_approval = approval, r_message = MsgApprovedFinal final\<rparr>,
                st5)))"

definition approve_step ::
  "env \<Rightarrow> state \<Rightarrow> user \<Rightarrow> personal_expense \<Rightarrow> approval \<Rightarrow> (error + decide_response) \<times> state" where
  "approve_step env st actor pe approval =
     (let rows = approve_rows st (pe_id pe);
          approvers = uniqueApprovers st rows;
          (pe1, st1) = PersonalExpense_save env st pe (pe\<lparr>approvals_count := length rows\<rparr>)
      in if required_admins pe1 \<le> length approvers
         then finalize env st1 actor pe1 approval rows
         else (Inr \<lparr>r_item = pe1, r_approval = approval,
                    r_message = MsgStillPending (length approvers) (required_admins_count pe1)\<rparr>,
               st1))"

text \<open>
  The handler, after \<^verbatim>\<open>authenticateToken\<close> has set \<^verbatim>\<open>req.user\<close>. The order of the checks is
  the order of the source: role, shape of the identifier, decision, amount, lookup, status.
\<close>

definition decide ::
  "env \<Rightarrow> state \<Rightarrow> user \<Rightarrow> id_param \<Rightarrow> decide_body \<Rightarrow> (error + decide_response) \<times> state" where
  "decide env st actor idp body =
     (if \<not> permit [AdminA, AdminB] actor then (Inl Forbidden, st)
      else case idp of
        MalformedId \<Rightarrow> (Inl NotFound, st)
      | ObjectId rid \<Rightarrow>
          (case parse_decision (b_decision body) of
             None \<Rightarrow> (Inl ValidationError, st)
           | Some d \<Rightarrow>
               if d = Approve \<and> approved_amount_rejected (b_approved_amount body)
               then (Inl ValidationError, st)
               else
                 (case findById (personal_expenses st) rid of
                    None \<Rightarrow> (Inl NotFound, st)
                  | Some pe \<Rightarrow>
                      if pe_status pe \<noteq> Pending then (Inl InvalidState, st)
                      else if \<not> castable_opt (normalized_amount (b_approved_amount body))
                      then (Inl ServerError, st)
                      else
                        (let (approval, rows) =
                               Approval_create_or_update (now env) (approvals st) (pe_id pe)
                                 (u_id actor) d (normalized_amount (b_approved_amount body));
                             st1 = st\<lparr>approvals := rows\<rparr>;
                             st2 = createAudit env st1 ''personal_expense'' (pe_id pe)
                                     (''admin_'' @ b_decision body) (Some (u_id actor))
                         in if d = Reject then reject_final env st2 actor pe approval
                            else approve_step env st2 actor pe approval))))"

section \<open>The owner's routes\<close>

definition field_ok :: "'a field \<Rightarrow> bool" where
  "field_ok f = (case f of Uncastable \<Rightarrow> False | _ \<Rightarrow> True)"

definition num_field_ok :: "jsnum field \<Rightarrow> bool" where
  "num_field_ok f = (case f of Uncastable \<Rightarrow> False | Undefined \<Rightarrow> True | Value v \<Rightarrow> castable v)"

definition apply_field :: "'a field \<Rightarrow> 'a \<Rightarrow> 'a" where
  "apply_field f old = (case f of Value v \<Rightarrow> v | _ \<Rightarrow> old)"

text \<open>
  Whether \<^verbatim>\<open>pe.save()\<close> accepts the edited document: every sent value casts, the required
  title is not empty, no Number is NaN.
\<close>

definition edit_body_ok :: "edit_body \<Rightarrow> bool" where
  "edit_body_ok b =
     (field_ok (e_title b) \<and> e_title b \<noteq> Value [] \<and> field_ok (e_description b) \<and>
      field_ok (e_category b) \<and> num_field_ok (e_amount_min b) \<and> num_field_ok (e_amount_avg b) \<and>
      num_field_ok (e_amount_max b) \<and> field_ok (e_requested_amount b) \<and>
      e_requested_amount b \<noteq> Value (Some NaN) \<and> field_ok (e_start_date b) \<and>
      field_ok (e_end_date b) \<and> field_ok (e_attachments b))"

text \<open>The loop over \<^verbatim>\<open>updatable\<close>: a field of the body that is not \<^verbatim>\<open>undefined\<close> is assigned.\<close>

definition apply_updatable :: "edit_body \<Rightarrow> personal_expense \<Rightarrow> personal_expense" where
  "apply_updatable b pe =
     pe\<lparr>pe_title := apply_field (e_title b) (pe_title pe),
        pe_description := apply_field (e_description b) (pe_description pe),
        pe_category := apply_field (e_category b) (pe_category pe),
        pe_amount_min := apply_field (e_amount_min b) (pe_amount_min pe),
        pe_amount_avg := apply_field (e_amount_avg b) (pe_amount_avg pe),
        pe_amount_max := apply_field (e_amount_max b) (pe_amount_max pe),
        pe_requested_amount := apply_field (e_requested_amount b) (pe_requested_amount pe),
        pe_start_date := apply_field (e_start_date b) (pe_start_date pe),
        pe_end_date := apply_field (e_end_date b) (pe_end_date pe),
        pe_attachments := apply_field (e_attachments b) (pe_attachments pe)\<rparr>"

text \<open>\<^verbatim>\<open>PUT /:id\<close>. The answer carries the document read back after the save.\<close>

definition edit ::
  "env \<Rightarrow> state \<Rightarrow> user \<Rightarrow> id_param \<Rightarrow> edit_body \<Rightarrow> (error + personal_expense option) \<times> state" where
  "edit env st actor idp body =
     (case idp of
        MalformedId \<Rightarrow> (Inl NotFound, st)
      | ObjectId rid \<Rightarrow>
          (case findById (personal_expenses st) rid of
             None \<Rightarrow> (Inl NotFound, st)
           | Some pe \<Rightarrow>
               if pe_user pe \<noteq> u_id actor then (Inl NotOwner, st)
               else if pe_status pe \<noteq> Draft then (Inl InvalidState, st)
               else if \<not> edit_body_ok body then (Inl ServerError, st)
               else
                 (let (pe1, st1) = PersonalExpense_save env st pe (apply_updatable body pe);
                      st2 = createAudit env st1 ''personal_expense'' (pe_id pe) ''update''
                              (Some (u_id actor))
                  in (Inr (findById (personal_expenses st2) (pe_id pe1)), st2))))"

text \<open>\<^verbatim>\<open>POST /:id/submit\<close>: every adminA and adminB gets a notification and an audit record.\<close>

definition notify_admins :: "env \<Rightarrow> user \<Rightarrow> personal_expense \<Rightarrow> state \<Rightarrow> user list \<Rightarrow> state" where
  "notify_admins env actor pe st admins =
     foldl (\<lambda>s a. createAudit env
                    (notify env s (u_id a) ''New personal expense pending approval'')
                    ''notification'' (pe_id pe) ''notify_admin_new_pending'' (Some (u_id actor)))
       st admins"

definition submit ::
  "env \<Rightarrow> state \<Rightarrow> user \<Rightarrow> id_param \<Rightarrow> (error + personal_expense option) \<times> state" where
  "submit env st actor idp =
     (case idp of
        MalformedId \<Rightarrow> (Inl NotFound, st)
      | ObjectId rid \<Rightarrow>
          (case findById (personal_expenses st) rid of
             None \<Rightarrow> (Inl NotFound, st)
           | Some pe \<Rightarrow>
               if pe_user pe \<noteq> u_id actor then (Inl NotOwner, st)
               else if pe_status pe \<noteq> Draft then (Inl InvalidState, st)
               else
                 (let (pe1, st1) = PersonalExpense_save env st pe (pe\<lparr>pe_status := Pending\<rparr>);
                      st2 = createAudit env st1 ''personal_expense'' (pe_id pe) ''submit''
                              (Some (u_id actor));
                      admins = filter (\<lambda>u. u_role u \<in> {AdminA, AdminB}) (users st2);
                      st3 = notify_admins env actor pe1 st2 admins
                  in (Inr (findById (personal_expenses st3) (pe_id pe1)), st3))))"

text \<open>\<^verbatim>\<open>POST /:id/cancel\<close>.\<close>

definition cancel ::
  "env \<Rightarrow> state \<Rightarrow> user \<Rightarrow> id_param \<Rightarrow> (error + personal_expense) \<times> state" where
  "cancel env st actor idp =
     (case idp of
        MalformedId \<Rightarrow> (Inl NotFound, st)
      | ObjectId rid \<Rightarrow>
          (case findById (personal_expenses st) rid of
             None \<Rightarrow> (Inl NotFound, st)
           | Some pe \<Rightarrow>
               if pe_user pe \<noteq> u_id actor then (Inl NotOwner, st)
               else if pe_status pe \<in> {Approved, Rejected, Cancelled} then (Inl InvalidState, st)
               else
                 (let (pe1, st1) = PersonalExpense_save env st pe (pe\<lparr>pe_status := Cancelled\<rparr>);
                      st2 = createAudit env st1 ''personal_expense'' (pe_id pe) ''cancelled''
                              (Some (u_id actor))
                  in (Inr pe1, st2))))"

text \<open>\<^verbatim>\<open>GET /:id/approvals\<close>: a read, so the state is not returned.\<close>

definition getApprovals :: "state \<Rightarrow> user \<Rightarrow> id_param \<Rightarrow> error + approval list" where
  "getApprovals st actor idp =
     (case idp of
        MalformedId \<Rightarrow> Inl NotFound
      | ObjectId rid \<Rightarrow>
          (case findById (personal_expenses st) rid of
             None \<Rightarrow> Inl NotFound
           | Some pe \<Rightarrow>
               if pe_user pe \<noteq> u_id actor \<and> u_role actor \<notin> {AdminA, AdminB, Superadmin}
               then Inl Forbidden
               else Inr (filter (\<lambda>a. ap_personal_expense a = pe_id pe) (approvals st))))"

text \<open>
  \<^verbatim>\<open>POST /\<close>: a new draft. \<^verbatim>\<open>!title\<close> holds for a missing and for an empty title; a Number
  that is NaN makes \<^verbatim>\<open>PersonalExpense.create\<close> throw.
\<close>

definition create ::
  "env \<Rightarrow> state \<Rightarrow> user \<Rightarrow> create_body \<Rightarrow> (error + personal_expense option) \<times> state" where
  "create env st actor body =
     (case (c_title body, c_amount_min body, c_amount_avg body, c_amount_max body) of
        (Some title, Some amin, Some aavg, Some amax) \<Rightarrow>
          if title = [] then (Inl ValidationError, st)
          else if c_category body = CategoryMissing then (Inl ValidationError, st)
          else if \<not> (castable amin \<and> castable aavg \<and> castable amax \<and>
                      castable_opt (c_requested_amount body))
          then (Inl ServerError, st)
          else
            (let pe = \<lparr>pe_id = new_id env, pe_user = u_id actor, pe_title = title,
                       pe_description = (case c_description body of None \<Rightarrow> [] | Some d \<Rightarrow> d),
                       pe_category = (case c_category body of CategoryFound c \<Rightarrow> Some c | _ \<Rightarrow> None),
                       pe_amount_min = amin, pe_amount_avg = aavg, pe_amount_max = amax,
                       pe_requested_amount = c_requested_amount body, pe_unit = None,
                       pe_start_date = c_start_date body, pe_end_date = c_end_date body,
                       pe_status = Draft,
                       pe_attachments = (case c_attachments body of None \<Rightarrow> [] | Some xs \<Rightarrow> xs),
                       required_admins_count = 2, approvals_count = 0,
                       pe_approved_amount = None, pe_approved_at = None,
                       pe_createdAt = now env, pe_updatedAt = now env\<rparr>;
                 st1 = st\<lparr>personal_expenses := personal_expenses st @ [pe]\<rparr>;
                 st2 = createAudit env st1 ''personal_expense'' (pe_id pe) ''create''
                         (Some (u_id actor))
             in (Inr (findById (personal_expenses st2) (pe_id pe)), st2))
      | _ \<Rightarrow> (Inl ValidationError, st))"

section \<open>The aggregation engine\<close>

record remaining_totals =
  totalIncome :: jsnum
  totalGlobalExpenses :: jsnum
  totalPersonalApproved :: jsnum
  totalExpenses :: jsnum
  remaining :: jsnum

text \<open>
  \<^verbatim>\<open>expMatch\<close>: the date lies in the closed range, the note does not hold the phrase
  (whatever the case of its letters) and the title does not start with the marker.
\<close>

definition expMatch :: "time \<Rightarrow> time \<Rightarrow> expense_entry \<Rightarrow> bool" where
  "expMatch start end' e =
     (start \<le> ee_date e \<and> ee_date e \<le> end' \<and>
      (case ee_note e of None \<Rightarrow> True | Some n \<Rightarrow> \<not> regex_i ''Approved personal expense'' n) \<and>
      (case ee_title e of None \<Rightarrow> True | Some t \<Rightarrow> \<not> prefix ''[Personal]'' t))"

text \<open>\<^verbatim>\<open>$ifNull: [{ $ifNull: ["$actual_amount", "$amount_avg"] }, 0]\<close>.\<close>

definition entry_amount :: "expense_entry \<Rightarrow> jsnum" where
  "entry_amount e =
     (case ee_actual_amount e of
        Some a \<Rightarrow> a
      | None \<Rightarrow> (case ee_amount_avg e of Some a \<Rightarrow> a | None \<Rightarrow> Fin 0))"

text \<open>The match stage on PersonalExpense: approved, and one of the three dates in the range.\<close>

definition peMatch :: "time \<Rightarrow> time \<Rightarrow> personal_expense \<Rightarrow> bool" where
  "peMatch start end' p =
     (pe_status p = Approved \<and>
      ((case pe_approved_at p of None \<Rightarrow> False | Some t \<Rightarrow> start \<le> t \<and> t \<le> end') \<or>
       (start \<le> pe_updatedAt p \<and> pe_updatedAt p \<le> end') \<or>
       (start \<le> pe_createdAt p \<and> pe_createdAt p \<le> end')))"

text \<open>\<^verbatim>\<open>$ifNull: [{ $ifNull: ["$approved_amount", "$requested_amount"] }, "$amount_avg"]\<close>.\<close>

definition personal_amount :: "personal_expense \<Rightarrow> jsnum" where
  "personal_amount p =
     (case pe_approved_amount p of
        Some a \<Rightarrow> a
      | None \<Rightarrow> (case pe_requested_amount p of Some a \<Rightarrow> a | None \<Rightarrow> pe_amount_avg p))"

text \<open>
  \<^verbatim>\<open>GET /api/reports/remaining\<close>, from the range that \<^verbatim>\<open>buildRange\<close> returns. The ledger
  total goes out under the name \<^verbatim>\<open>totalGlobalExpenses\<close>.
\<close>

definition remaining_report :: "state \<Rightarrow> time \<Rightarrow> time \<Rightarrow> remaining_totals" where
  "remaining_report st start end' =
     (let income = or_zero (js_sum (map ie_amount
                     (filter (\<lambda>i. start \<le> ie_date i \<and> ie_date i \<le> end') (income_entries st))));
          global = or_zero (js_sum (map entry_amount
                     (filter (expMatch start end') (expense_entries st))));
          personal = or_zero (js_sum (map personal_amount
                       (filter (peMatch start end') (personal_expenses st))));
          total = js_add (or_zero global) (or_zero personal)
      in \<lparr>totalIncome = income, totalGlobalExpenses = global, totalPersonalApproved = personal,
          totalExpenses = total, remaining = js_sub (or_zero income) (or_zero total)\<rparr>)"

record monthly_totals =
  incomeTotal :: jsnum
  expenseTotalFromEntries :: jsnum
  expenseTotalFromPersonal :: jsnum
  monthTotalExpenses :: jsnum
  monthRemaining :: jsnum

definition opt_or_zero :: "jsnum option \<Rightarrow> jsnum" where
  "opt_or_zero x = (case x of None \<Rightarrow> Fin 0 | Some a \<Rightarrow> a)"

text \<open>
  \<^verbatim>\<open>computeMonthlyTotals\<close>, from the first instant of the month and the first instant of the
  next one (exclusive). Its two last fields are \<^verbatim>\<open>totalExpenses\<close> and \<^verbatim>\<open>remaining\<close> in
  the source.
\<close>

definition computeMonthlyTotals :: "state \<Rightarrow> time \<Rightarrow> time \<Rightarrow> monthly_totals" where
  "computeMonthlyTotals st start end' =
     (let income = or_zero (js_sum (map ie_amount
                     (filter (\<lambda>i. start \<le> ie_date i \<and> ie_date i < end') (income_entries st))));
          fromEntries = or_zero (js_sum (map (\<lambda>e. opt_or_zero (ee_actual_amount e))
                          (filter (\<lambda>e. start \<le> ee_date e \<and> ee_date e < end') (expense_entries st))));
          fromPersonal = or_zero (js_sum (map (\<lambda>p. opt_or_zero (pe_approved_amount p))
                           (filter (\<lambda>p. pe_status p = Approved \<and>
                                         (case pe_approved_at p of
                                            None \<Rightarrow> False
                                          | Some t \<Rightarrow> start \<le> t \<and> t < end'))
                              (personal_expenses st))));
          total = js_add fromEntries fromPersonal
      in \<lparr>incomeTotal = income, expenseTotalFromEntries = fromEntries,
          expenseTotalFromPersonal = fromPersonal, monthTotalExpenses = total,
          monthRemaining = js_sub income total\<rparr>)"

section \<open>Notions used in the statements\<close>

text \<open>
  The state and the row after the vote of a call is written and audited, before the branch on
  the decision.
\<close>

definition recorded :: "env \<Rightarrow> state \<Rightarrow> user \<Rightarrow> oid \<Rightarrow> decide_body \<Rightarrow> decision \<Rightarrow> state" where
  "recorded env st actor rid body d =
     createAudit env
       (st\<lparr>approvals := snd (Approval_create_or_update (now env) (approvals st) rid (u_id actor) d
                                (normalized_amount (b_approved_amount body)))\<rparr>)
       ''personal_expense'' rid (''admin_'' @ b_decision body) (Some (u_id actor))"

definition recorded_row :: "env \<Rightarrow> state \<Rightarrow> user \<Rightarrow> oid \<Rightarrow> decide_body \<Rightarrow> decision \<Rightarrow> approval" where
  "recorded_row env st actor rid body d =
     fst (Approval_create_or_update (now env) (approvals st) rid (u_id actor) d
            (normalized_amount (b_approved_amount body)))"

text \<open>A small database: an owner, two admins, one pending request of the owner.\<close>

definition ex_env :: env where
  "ex_env = \<lparr>now = 1000, new_id = 900, audit_ok = (\<lambda>_. True), notify_ok = (\<lambda>_. True)\<rparr>"

definition ex_owner :: user where
  "ex_owner = \<lparr>u_id = 10, u_role = RoleUser\<rparr>"

definition ex_adminA :: user where
  "ex_adminA = \<lparr>u_id = 21, u_role = AdminA\<rparr>"

definition ex_adminB :: user where
  "ex_adminB = \<lparr>u_id = 22, u_role = AdminB\<rparr>"

definition ex_request :: personal_expense where
  "ex_request =
     \<lparr>pe_id = 1, pe_user = 10, pe_title = ''Stove'', pe_description = [], pe_category = None,
      pe_amount_min = Fin 200, pe_amount_avg = Fin 260, pe_amount_max = Fin 300,
      pe_requested_amount = Some (Fin 250), pe_unit = None, pe_start_date = None,
      pe_end_date = None, pe_status = Pending, pe_attachments = [], required_admins_count = 2,
      approvals_count = 0, pe_approved_amount = None, pe_approved_at = None,
      pe_createdAt = 10, pe_updatedAt = 20\<rparr>"

definition ex_state :: state where
  "ex_state =
     \<lparr>users = [ex_owner, ex_adminA, ex_adminB], personal_expenses = [ex_request],
      approvals = [], expense_entries = [], income_entries = [], audit_logs = [],
      notifications = []\<rparr>"

definition approve_body :: "jsnum \<Rightarrow> decide_body" where
  "approve_body x = \<lparr>b_decision = ''approve'', b_approved_amount = RawValue x\<rparr>"

definition ex_rowA :: approval where
  "ex_rowA = \<lparr>ap_personal_expense = 1, ap_admin_user = 21, ap_decision = Approve,
               ap_decided_at = 500, ap_approved_amount = Some (Fin 100)\<rparr>"

definition ex_state_voted :: state where
  "ex_state_voted = ex_state\<lparr>approvals := [ex_rowA]\<rparr>"

text \<open>A body that passes the two checks made on it before the request is looked up.\<close>

definition body_accepted :: "decide_body \<Rightarrow> bool" where
  "body_accepted body =
     (parse_decision (b_decision body) \<noteq> None \<and>
      (b_decision body = ''approve'' \<longrightarrow>
         b_approved_amount body \<notin> {RawUndefined, RawNull, RawValue NaN}))"


definition status_of :: "state \<Rightarrow> oid \<Rightarrow> status option" where
  "status_of st rid = map_option pe_status (findById (personal_expenses st) rid)"


text \<open>The database without its audit collection, and two handlers' surroundings that differ at
  most in the fate of the audit writes.\<close>

definition without_audit :: "state \<Rightarrow> state" where
  "without_audit st = st\<lparr>audit_logs := []\<rparr>"

definition same_but_audit :: "env \<Rightarrow> env \<Rightarrow> bool" where
  "same_but_audit env env' =
     (now env = now env' \<and> new_id env = new_id env' \<and> notify_ok env = notify_ok env')"

text \<open>A finite Number and its value.\<close>

definition is_finite :: "jsnum \<Rightarrow> bool" where
  "is_finite x = (case x of Fin _ \<Rightarrow> True | _ \<Rightarrow> False)"

definition fin_val :: "jsnum \<Rightarrow> rat" where
  "fin_val x = (case x of Fin a \<Rightarrow> a | _ \<Rightarrow> 0)"

definition finite_opt :: "jsnum option \<Rightarrow> bool" where
  "finite_opt x = (case x of None \<Rightarrow> True | Some v \<Rightarrow> is_finite v)"

definition no_edit :: edit_body where
  "no_edit = \<lparr>e_title = Undefined, e_description = Undefined, e_category = Undefined,
              e_amount_min = Undefined, e_amount_avg = Undefined, e_amount_max = Undefined,
              e_requested_amount = Undefined, e_start_date = Undefined, e_end_date = Undefined,
              e_attachments = Undefined\<rparr>"

definition ex_edit_body :: edit_body where
  "ex_edit_body = no_edit\<lparr>e_title := Value ''Oven'', e_amount_avg := Value (Fin 270)\<rparr>"

definition ex_draft :: personal_expense where
  "ex_draft = ex_request\<lparr>pe_id := 2, pe_status := Draft\<rparr>"

definition ex_state_draft :: state where
  "ex_state_draft = ex_state\<lparr>personal_expenses := [ex_request, ex_draft]\<rparr>"

text \<open>The attributes of a request that are not in the list \<^verbatim>\<open>updatable\<close>, the timestamp of the last
  save apart.\<close>

definition same_fixed_attributes :: "personal_expense \<Rightarrow> personal_expense \<Rightarrow> bool" where
  "same_fixed_attributes p q =
     (pe_id p = pe_id q \<and> pe_user p = pe_user q \<and> pe_unit p = pe_unit q \<and>
      pe_status p = pe_status q \<and> required_admins_count p = required_admins_count q \<and>
      approvals_count p = approvals_count q \<and> pe_approved_amount p = pe_approved_amount q \<and>
      pe_approved_at p = pe_approved_at q \<and> pe_createdAt p = pe_createdAt q)"



text \<open>The Numbers of a stored request: none is NaN.\<close>

definition storable :: "personal_expense \<Rightarrow> bool" where
  "storable pe = (castable (pe_amount_min pe) \<and> castable (pe_amount_avg pe) \<and> castable (pe_amount_max pe))"

text \<open>
  The entries the report calls personal-backed: the note holds "Approved personal expense", or
  the title starts with "[Personal]".
\<close>

definition personal_derived :: "expense_entry \<Rightarrow> bool" where
  "personal_derived e =
     ((case ee_note e of None \<Rightarrow> False | Some n \<Rightarrow> regex_i ''Approved personal expense'' n) \<or>
      (case ee_title e of None \<Rightarrow> False | Some t \<Rightarrow> prefix ''[Personal]'' t))"

text \<open>Every amount a report may read is a finite Number.\<close>

definition finite_ledger :: "state \<Rightarrow> bool" where
  "finite_ledger st =
     ((\<forall>i\<in>set (income_entries st). is_finite (ie_amount i)) \<and>
      (\<forall>e\<in>set (expense_entries st). finite_opt (ee_actual_amount e) \<and> finite_opt (ee_amount_avg e)) \<and>
      (\<forall>p\<in>set (personal_expenses st).
          finite_opt (pe_approved_amount p) \<and> finite_opt (pe_requested_amount p) \<and>
          is_finite (pe_amount_avg p)))"

text \<open>The ledger of the example: one income, one approved request, the entry made from it.\<close>

definition ex_income :: income_entry where
  "ex_income = \<lparr>ie_source_name = ''Salary'', ie_amount = Fin 1000, ie_date = 50\<rparr>"

definition ex_approved :: personal_expense where
  "ex_approved =
     ex_request\<lparr>pe_status := Approved, approvals_count := 2, pe_approved_amount := Some (Fin 300),
                pe_approved_at := Some 60, pe_updatedAt := 60\<rparr>"

definition ex_ledger :: state where
  "ex_ledger =
     \<lparr>users = [ex_owner, ex_adminA, ex_adminB], personal_expenses = [ex_approved],
      approvals = [], expense_entries = [materialized_entry ex_env ex_adminB ex_approved (Fin 300)],
      income_entries = [ex_income], audit_logs = [], notifications = []\<rparr>"

text \<open>The two match stages of the monthly totals.\<close>

definition in_month :: "time \<Rightarrow> time \<Rightarrow> time \<Rightarrow> bool" where
  "in_month start end' t = (start \<le> t \<and> t < end')"

definition approved_in_month :: "time \<Rightarrow> time \<Rightarrow> personal_expense \<Rightarrow> bool" where
  "approved_in_month start end' p =
     (pe_status p = Approved \<and>
      (case pe_approved_at p of None \<Rightarrow> False | Some t \<Rightarrow> start \<le> t \<and> t < end'))"

text \<open>The surroundings in which every audit write fails.\<close>

definition audit_down :: "env \<Rightarrow> env" where
  "audit_down env = env\<lparr>audit_ok := (\<lambda>_. False)\<rparr>"

text \<open>Two outcomes with the same answer and the same database, the audit log apart.\<close>

definition audit_equiv :: "'a \<times> state \<Rightarrow> 'a \<times> state \<Rightarrow> bool" where
  "audit_equiv r r' = (fst r = fst r' \<and> without_audit (snd r) = without_audit (snd r'))"

definition ex_create_body :: create_body where
  "ex_create_body =
     \<lparr>c_title = Some ''Kettle'', c_description = None, c_category = NoCategory,
      c_amount_min = Some (Fin 20), c_amount_avg = Some (Fin 25), c_amount_max = Some (Fin 30),
      c_requested_amount = None, c_start_date = None, c_end_date = None, c_attachments = None\<rparr>"

section \<open>Frame and lookup lemmas\<close>

lemma createAudit_fields [simp]:
  "users (createAudit env st a b c d) = users st"
  "personal_expenses (createAudit env st a b c d) = personal_expenses st"
  "approvals (createAudit env st a b c d) = approvals st"
  "expense_entries (createAudit env st a b c d) = expense_entries st"
  "income_entries (createAudit env st a b c d) = income_entries st"
  "notifications (createAudit env st a b c d) = notifications st"
  by (simp_all add: createAudit_def Let_def)

lemma notify_fields [simp]:
  "users (notify env st a b) = users st"
  "personal_expenses (notify env st a b) = personal_expenses st"
  "approvals (notify env st a b) = approvals st"
  "expense_entries (notify env st a b) = expense_entries st"
  "income_entries (notify env st a b) = income_entries st"
  by (simp_all add: notify_def Let_def)

lemma save_fields [simp]:
  "users (snd (PersonalExpense_save env st old new)) = users st"
  "approvals (snd (PersonalExpense_save env st old new)) = approvals st"
  "expense_entries (snd (PersonalExpense_save env st old new)) = expense_entries st"
  "income_entries (snd (PersonalExpense_save env st old new)) = income_entries st"
  "audit_logs (snd (PersonalExpense_save env st old new)) = audit_logs st"
  "notifications (snd (PersonalExpense_save env st old new)) = notifications st"
  by (simp_all add: PersonalExpense_save_def Let_def)

lemma materialize_fields [simp]:
  "users (materialize env st actor pe v) = users st"
  "personal_expenses (materialize env st actor pe v) = personal_expenses st"
  "approvals (materialize env st actor pe v) = approvals st"
  "income_entries (materialize env st actor pe v) = income_entries st"
  "notifications (materialize env st actor pe v) = notifications st"
  by (simp_all add: materialize_def Let_def split: option.splits)

lemma findById_Some_id: "findById docs i = Some p \<Longrightarrow> pe_id p = i"
  by (auto simp: findById_def find_Some_iff)

lemma findById_map_replace:
  "findById docs i = Some p \<Longrightarrow> pe_id q = i \<Longrightarrow>
   findById (map (\<lambda>p. if pe_id p = i then q else p) docs) i = Some q"
  by (induction docs) (auto simp: findById_def split: if_splits)

lemma findById_map_other:
  "j \<noteq> i \<Longrightarrow> pe_id q = i \<Longrightarrow>
   findById (map (\<lambda>p. if pe_id p = i then q else p) docs) j = findById docs j"
  by (induction docs) (auto simp: findById_def split: if_splits)

lemma save_fst_id [simp]: "pe_id (fst (PersonalExpense_save env st old new)) = pe_id new"
  by (simp add: PersonalExpense_save_def Let_def)

lemma save_findById:
  "findById (personal_expenses st) i = Some p \<Longrightarrow> pe_id new = i \<Longrightarrow>
   findById (personal_expenses (snd (PersonalExpense_save env st old new))) i
     = Some (fst (PersonalExpense_save env st old new))"
  by (auto simp: PersonalExpense_save_def Let_def findById_map_replace)


lemma foldl_js_add_Fin: "foldl js_add (Fin a) (map Fin xs) = Fin (a + sum_list xs)"
  by (induction xs arbitrary: a) (simp_all add: add.assoc)










lemma save_fst_fields:
  "pe_status (fst (PersonalExpense_save env st old new)) = pe_status new"
  "pe_approved_amount (fst (PersonalExpense_save env st old new)) = pe_approved_amount new"
  "pe_requested_amount (fst (PersonalExpense_save env st old new)) = pe_requested_amount new"
  "pe_amount_avg (fst (PersonalExpense_save env st old new)) = pe_amount_avg new"
  "required_admins_count (fst (PersonalExpense_save env st old new)) = required_admins_count new"
  "pe_user (fst (PersonalExpense_save env st old new)) = pe_user new"
  by (simp_all add: PersonalExpense_save_def Let_def)

lemma final_cong:
  "pe_requested_amount p = pe_requested_amount q \<Longrightarrow> pe_amount_avg p = pe_amount_avg q \<Longrightarrow>
   finalApprovedAmount ps p = finalApprovedAmount ps q"
  by (cases ps) (auto simp: finalApprovedAmount_def split: option.splits)

lemma approve_rows_cong: "approvals st' = approvals st \<Longrightarrow> approve_rows st' rid = approve_rows st rid"
  by (simp add: approve_rows_def)

lemma finalize_result:
  assumes "finalize env st actor pe approval rows = (Inr resp, st')"
    and "findById (personal_expenses st) (pe_id pe) = Some p0"
  shows "r_message resp = MsgApprovedFinal (finalApprovedAmount (providedAmounts rows) pe)"
    and "pe_approved_amount (r_item resp) = Some (finalApprovedAmount (providedAmounts rows) pe)"
    and "pe_status (r_item resp) = Approved"
    and "findById (personal_expenses st') (pe_id pe) = Some (r_item resp)"
    and "approvals st' = approvals st"
    and "castable (finalApprovedAmount (providedAmounts rows) pe)"
  using assms
  by (auto simp: finalize_def Let_def case_prod_beta save_fst_fields save_findById
           split: if_splits)

lemma finalize_error:
  assumes "finalize env st actor pe approval rows = (Inl e, st')"
  shows "e = ServerError \<and> st' = st \<and> \<not> castable (finalApprovedAmount (providedAmounts rows) pe)"
  using assms by (auto simp: finalize_def Let_def case_prod_beta split: if_splits)


lemma required_admins_save [simp]:
  "required_admins (fst (PersonalExpense_save env st old new)) = required_admins new"
  by (simp add: required_admins_def save_fst_fields)

lemma approve_step_frame [simp]:
  "approvals (snd (approve_step env st actor pe approval)) = approvals st"
  "users (snd (approve_step env st actor pe approval)) = users st"
  "income_entries (snd (approve_step env st actor pe approval)) = income_entries st"
  by (auto simp: approve_step_def finalize_def Let_def case_prod_beta)


lemma approve_step_final:
  assumes "approve_step env st actor pe approval = (Inr resp, st')"
    and "r_message resp = MsgApprovedFinal v"
    and "findById (personal_expenses st) (pe_id pe) = Some p0"
  shows "v = finalApprovedAmount (providedAmounts (approve_rows st (pe_id pe))) pe"
    and "pe_approved_amount (r_item resp) = Some v"
    and "pe_status (r_item resp) = Approved"
    and "findById (personal_expenses st') (pe_id pe) = Some (r_item resp)"
  using assms
  by (auto simp: approve_step_def finalize_def Let_def case_prod_beta save_fst_fields
        save_findById required_admins_def
        final_cong[of "fst (PersonalExpense_save env st pe (pe\<lparr>approvals_count := n\<rparr>))" pe for n]
        split: if_splits)

lemma reject_final_result:
  assumes "findById (personal_expenses st) (pe_id pe) = Some p0"
  shows "\<exists>resp. fst (reject_final env st actor pe approval) = Inr resp \<and> r_message resp = MsgRejected"
    and "map_option pe_status
           (findById (personal_expenses (snd (reject_final env st actor pe approval))) (pe_id pe))
         = Some Rejected"
    and "approvals (snd (reject_final env st actor pe approval)) = approvals st"
  using assms
  by (auto simp: reject_final_def Let_def case_prod_beta save_fst_fields save_findById)


lemma decide_recorded:
  assumes "permit [AdminA, AdminB] actor"
    and "findById (personal_expenses st) rid = Some pe"
    and "pe_status pe = Pending"
    and "parse_decision (b_decision body) = Some d"
    and "d = Approve \<longrightarrow> \<not> approved_amount_rejected (b_approved_amount body)"
    and "castable_opt (normalized_amount (b_approved_amount body))"
  shows "decide env st actor (ObjectId rid) body =
          (if d = Reject
           then reject_final env (recorded env st actor rid body d) actor pe
                  (recorded_row env st actor rid body d)
           else approve_step env (recorded env st actor rid body d) actor pe
                  (recorded_row env st actor rid body d))"
proof -
  have "pe_id pe = rid" using assms(2) by (rule findById_Some_id)
  show ?thesis
  proof (cases d)
    case Approve
    with assms(5) have "\<not> approved_amount_rejected (b_approved_amount body)" by simp
    with Approve \<open>pe_id pe = rid\<close> assms(1-4,6) show ?thesis
      by (simp add: decide_def recorded_def recorded_row_def Let_def case_prod_beta)
  next
    case Reject
    with \<open>pe_id pe = rid\<close> assms(1-4,6) show ?thesis
      by (simp add: decide_def recorded_def recorded_row_def Let_def case_prod_beta)
  qed
qed

lemma recorded_fields [simp]:
  "users (recorded env st actor rid body d) = users st"
  "personal_expenses (recorded env st actor rid body d) = personal_expenses st"
  "income_entries (recorded env st actor rid body d) = income_entries st"
  "expense_entries (recorded env st actor rid body d) = expense_entries st"
  "approvals (recorded env st actor rid body d) =
     snd (Approval_create_or_update (now env) (approvals st) rid (u_id actor) d
            (normalized_amount (b_approved_amount body)))"
  by (simp_all add: recorded_def)

text \<open>A call either stops at one of the early returns, with the state untouched, or records the vote.\<close>

lemma decide_cases:
  obtains (early) e where "decide env st actor idp body = (Inl e, st)"
        "e \<in> {Forbidden, NotFound, ValidationError, InvalidState, ServerError}"
  | (rec) rid pe d where "idp = ObjectId rid" "permit [AdminA, AdminB] actor"
        "findById (personal_expenses st) rid = Some pe" "pe_status pe = Pending"
        "parse_decision (b_decision body) = Some d"
        "d = Approve \<longrightarrow> \<not> approved_amount_rejected (b_approved_amount body)"
        "castable_opt (normalized_amount (b_approved_amount body))"
proof (cases "permit [AdminA, AdminB] actor")
  case False
  then show ?thesis using early[of Forbidden] by (simp add: decide_def)
next
  case adm: True
  show ?thesis
  proof (cases idp)
    case MalformedId
    then show ?thesis using early[of NotFound] adm by (simp add: decide_def)
  next
    case (ObjectId rid)
    show ?thesis
    proof (cases "parse_decision (b_decision body)")
      case None
      then show ?thesis using early[of ValidationError] adm ObjectId by (simp add: decide_def)
    next
      case (Some d)
      show ?thesis
      proof (cases "d = Approve \<and> approved_amount_rejected (b_approved_amount body)")
        case True
        then show ?thesis using early[of ValidationError] adm ObjectId Some by (simp add: decide_def)
      next
        case ok: False
        show ?thesis
        proof (cases "findById (personal_expenses st) rid")
          case None
          then show ?thesis using early[of NotFound] adm ObjectId Some ok by (simp add: decide_def)
        next
          case (Some pe)
          note pe = this
          show ?thesis
          proof (cases "pe_status pe = Pending")
            case False
            then show ?thesis using early[of InvalidState] adm ObjectId \<open>parse_decision (b_decision body) = Some d\<close> ok pe
              by (simp add: decide_def)
          next
            case pend: True
            show ?thesis
            proof (cases "castable_opt (normalized_amount (b_approved_amount body))")
              case False
              then show ?thesis using early[of ServerError] adm ObjectId \<open>parse_decision (b_decision body) = Some d\<close> ok pe pend
                by (simp add: decide_def)
            next
              case True
              then show ?thesis using rec[of rid pe d] adm ObjectId \<open>parse_decision (b_decision body) = Some d\<close> ok pe pend
                by blast
            qed
          qed
        qed
      qed
    qed
  qed
qed

lemma decide_final_amount:
  assumes dec: "decide env st actor (ObjectId rid) body = (Inr resp, st')"
    and msg: "r_message resp = MsgApprovedFinal v"
    and pe: "findById (personal_expenses st) rid = Some pe"
  shows "v = finalApprovedAmount (providedAmounts (approve_rows st' rid)) pe
       \<and> pe_approved_amount (r_item resp) = Some v \<and> pe_status (r_item resp) = Approved
       \<and> findById (personal_expenses st') rid = Some (r_item resp)"
proof (rule decide_cases[where env=env and st=st and actor=actor and idp="ObjectId rid" and body=body],
    goal_cases)
  case (1 e)
  then show ?thesis using dec by simp
next
  case rec: (2 rid' pe' d)
  have r: "rid' = rid" using rec(1) by simp
  have p: "pe' = pe" using rec(3) pe r by simp
  have id: "pe_id pe = rid" using pe by (rule findById_Some_id)
  let ?st2 = "recorded env st actor rid body d"
  let ?row = "recorded_row env st actor rid body d"
  have eq: "decide env st actor (ObjectId rid) body =
      (if d = Reject then reject_final env ?st2 actor pe ?row else approve_step env ?st2 actor pe ?row)"
    using decide_recorded[OF rec(2) pe, of body d env] rec(4-7) p by blast
  have found: "findById (personal_expenses ?st2) (pe_id pe) = Some pe" using pe id by simp
  show ?thesis
  proof (cases "d = Reject")
    case True
    with eq dec have "reject_final env ?st2 actor pe ?row = (Inr resp, st')" by simp
    then have "fst (reject_final env ?st2 actor pe ?row) = Inr resp" by simp
    with reject_final_result(1)[OF found, of env actor ?row] msg show ?thesis by auto
  next
    case False
    with eq dec have st: "approve_step env ?st2 actor pe ?row = (Inr resp, st')" by simp
    have "approvals st' = approvals ?st2"
      using approve_step_frame(1)[of env ?st2 actor pe ?row] st by simp
    then have "approve_rows st' rid = approve_rows ?st2 rid" by (rule approve_rows_cong)
    with approve_step_final[OF st msg found] id show ?thesis by simp
  qed
qed


lemmas ex_defs = ex_env_def ex_owner_def ex_adminA_def ex_adminB_def ex_request_def ex_state_def approve_body_def

lemmas decide_unfold = decide_def permit_def parse_decision_def approved_amount_rejected_def
  normalized_amount_def castable_opt_def castable_def findById_def Approval_create_or_update_def
  same_vote_def createAudit_def notify_def approve_step_def approve_rows_def uniqueApprovers_def
  PersonalExpense_save_def required_admins_def finalize_def providedAmounts_def
  finalApprovedAmount_def js_strict_eq_def js_div_length_def Math_round_def materialize_def
  materialized_entry_def tagged_with_def entry_castable_def reject_final_def List.map_filter_def



lemma ex_decide_final:
  "\<exists>resp st'. decide ex_env ex_state_voted ex_adminB (ObjectId 1) (approve_body (Fin 101)) = (Inr resp, st')
     \<and> r_message resp = MsgApprovedFinal (Fin 101)"
  by (simp add: ex_defs ex_rowA_def ex_state_voted_def decide_unfold Let_def prod_eq_iff)

section \<open>Amount reconciliation\<close>



section \<open>Errors and frames of the routes\<close>

lemma rejected_iff:
  "approved_amount_rejected raw \<longleftrightarrow> raw \<in> {RawUndefined, RawNull, RawValue NaN}"
  by (cases raw) (auto simp: approved_amount_rejected_def)















lemma decide_unknown:
  assumes "idp = MalformedId \<or> (\<exists>rid. idp = ObjectId rid \<and> findById (personal_expenses st) rid = None)"
  shows "decide env st actor idp db =
           (Inl (if \<not> permit [AdminA, AdminB] actor then Forbidden
                 else if idp = MalformedId \<or> body_accepted db then NotFound
                 else ValidationError), st)"
  using assms
  by (auto simp: decide_def body_accepted_def rejected_iff parse_decision_def split: option.splits)

text \<open>
  Claim C10, as amended. With a malformed identifier, or a well-formed one that names no stored
  request, edit, submit, cancel and the approvals listing answer NotFound and change nothing.
  The decide route changes nothing either, but the role gate and the validation of the body
  come before the lookup: a caller who is no admin gets Forbidden, and an admin gets NotFound
  for a malformed identifier, and for an unknown one NotFound only when the body is accepted,
  ValidationError otherwise.
\<close>

theorem C10_unknown_request:
  assumes "idp = MalformedId \<or> (\<exists>rid. idp = ObjectId rid \<and> findById (personal_expenses st) rid = None)"
  shows "edit env st actor idp eb = (Inl NotFound, st)
       \<and> submit env st actor idp = (Inl NotFound, st)
       \<and> cancel env st actor idp = (Inl NotFound, st)
       \<and> getApprovals st actor idp = Inl NotFound
       \<and> decide env st actor idp db =
           (Inl (if \<not> permit [AdminA, AdminB] actor then Forbidden
                 else if idp = MalformedId \<or> body_accepted db then NotFound
                 else ValidationError), st)"
  using assms decide_unknown[OF assms, of env actor db]
  by (auto simp: edit_def submit_def cancel_def getApprovals_def)

theorem C10_unknown_request_witness:
  "findById (personal_expenses ex_state) 7 = None
   \<and> edit ex_env ex_state ex_owner (ObjectId 7) ex_edit_body = (Inl NotFound, ex_state)
   \<and> submit ex_env ex_state ex_owner MalformedId = (Inl NotFound, ex_state)
   \<and> cancel ex_env ex_state ex_owner (ObjectId 7) = (Inl NotFound, ex_state)
   \<and> getApprovals ex_state ex_owner (ObjectId 7) = Inl NotFound
   \<and> decide ex_env ex_state ex_adminA (ObjectId 7) (approve_body (Fin 100)) = (Inl NotFound, ex_state)
   \<and> decide ex_env ex_state ex_adminA MalformedId (approve_body NaN) = (Inl NotFound, ex_state)
   \<and> decide ex_env ex_state ex_owner MalformedId (approve_body (Fin 100)) = (Inl Forbidden, ex_state)"
proof -
  have f: "findById (personal_expenses ex_state) 7 = None"
    by (simp add: ex_state_def findById_def ex_request_def)
  have adm: "permit [AdminA, AdminB] ex_adminA" "\<not> permit [AdminA, AdminB] ex_owner"
    by (simp_all add: permit_def ex_adminA_def ex_owner_def)
  have acc: "body_accepted (approve_body (Fin 100))"
    by (simp add: body_accepted_def approve_body_def parse_decision_def)
  have u: "ObjectId 7 = MalformedId \<or> (\<exists>rid. ObjectId 7 = ObjectId rid \<and> findById (personal_expenses ex_state) rid = None)"
    using f by simp
  have m: "MalformedId = MalformedId \<or> (\<exists>rid. MalformedId = ObjectId rid \<and> findById (personal_expenses ex_state) rid = None)"
    by simp
  show ?thesis
    using f C10_unknown_request[OF u, of ex_env ex_owner ex_edit_body "approve_body (Fin 100)"]
      C10_unknown_request[OF u, of ex_env ex_adminA ex_edit_body "approve_body (Fin 100)"]
      C10_unknown_request[OF m, of ex_env ex_owner ex_edit_body "approve_body (Fin 100)"]
      C10_unknown_request[OF m, of ex_env ex_adminA ex_edit_body "approve_body NaN"]
      adm acc
    by simp
qed

text \<open>
  Claim C10 as stated fails on the decide route: an unknown identifier with a decision that is
  neither approve nor reject gives ValidationError, and a malformed identifier sent by a caller
  who is no admin gives Forbidden.
\<close>

theorem C10_counterexample:
  "findById (personal_expenses ex_state) 7 = None
   \<and> decide ex_env ex_state ex_adminA (ObjectId 7)
        \<lparr>b_decision = ''maybe'', b_approved_amount = RawUndefined\<rparr> = (Inl ValidationError, ex_state)
   \<and> decide ex_env ex_state ex_owner MalformedId (approve_body (Fin 100)) = (Inl Forbidden, ex_state)"
  by (simp add: ex_defs decide_unfold)


lemma edit_error_unchanged:
  "edit env st actor idp body = (Inl e, st') \<Longrightarrow> st' = st"
  by (auto simp: edit_def Let_def case_prod_beta split: id_param.splits option.splits if_splits)

lemma edit_ok_only:
  "edit env st actor idp body = (Inr r, st') \<Longrightarrow>
   \<exists>rid pe. idp = ObjectId rid \<and> findById (personal_expenses st) rid = Some pe
      \<and> pe_user pe = u_id actor \<and> pe_status pe = Draft \<and> edit_body_ok body"
  by (auto simp: edit_def Let_def case_prod_beta split: id_param.splits option.splits if_splits)

lemma edit_not_draft:
  "findById (personal_expenses st) rid = Some pe \<Longrightarrow> pe_status pe \<noteq> Draft \<Longrightarrow>
   edit env st actor (ObjectId rid) body =
     (Inl (if pe_user pe = u_id actor then InvalidState else NotOwner), st)"
  by (simp add: edit_def)

lemma save_other:
  "j \<noteq> pe_id new \<Longrightarrow>
   findById (personal_expenses (snd (PersonalExpense_save env st old new))) j
     = findById (personal_expenses st) j"
  by (auto simp: PersonalExpense_save_def Let_def findById_map_other)

lemma same_fixed_saved:
  "same_fixed_attributes (fst (PersonalExpense_save env st pe (apply_updatable body pe))) pe"
  by (simp add: same_fixed_attributes_def PersonalExpense_save_def Let_def apply_updatable_def)

lemma edit_ok_frame:
  assumes "edit env st actor (ObjectId rid) body = (Inr r, st')"
    and "findById (personal_expenses st) rid = Some pe"
  shows "\<exists>pe'. r = Some pe' \<and> findById (personal_expenses st') rid = Some pe'
           \<and> same_fixed_attributes pe' pe
           \<and> pe' = (apply_updatable body pe)\<lparr>pe_updatedAt := pe_updatedAt pe'\<rparr>
           \<and> (\<forall>j. j \<noteq> rid \<longrightarrow> findById (personal_expenses st') j = findById (personal_expenses st) j)
           \<and> users st' = users st \<and> approvals st' = approvals st
           \<and> expense_entries st' = expense_entries st \<and> income_entries st' = income_entries st
           \<and> notifications st' = notifications st"
proof -
  have id: "pe_id pe = rid" using assms(2) by (rule findById_Some_id)
  let ?sv = "PersonalExpense_save env st pe (apply_updatable body pe)"
  have idn: "pe_id (apply_updatable body pe) = rid" using id by (simp add: apply_updatable_def)
  have st': "st' = createAudit env (snd ?sv) ''personal_expense'' rid ''update'' (Some (u_id actor))"
    and r: "r = findById (personal_expenses (snd ?sv)) (pe_id (fst ?sv))"
    using assms id by (auto simp: edit_def Let_def case_prod_beta split: if_splits)
  have f: "findById (personal_expenses (snd ?sv)) rid = Some (fst ?sv)"
    using save_findById[OF assms(2) idn] .
  have upd: "fst ?sv = (apply_updatable body pe)\<lparr>pe_updatedAt := pe_updatedAt (fst ?sv)\<rparr>"
    by (simp add: PersonalExpense_save_def Let_def)
  show ?thesis
    using st' r f idn same_fixed_saved[of env st pe body] upd save_other[of _ "apply_updatable body pe" env st pe]
    by (intro exI[of _ "fst ?sv"]) simp
qed


text \<open>
  Claim C7, as amended. An edit succeeds only for the owner of a draft. On a request that is not
  a draft it fails, with InvalidState for the owner and with NotOwner for anybody else (the
  ownership check comes first), and a failed edit returns the state unchanged. A successful edit
  stores the request with the sent updatable fields assigned and \<^verbatim>\<open>updatedAt\<close> as the save
  left it: every other attribute, every other request and every other collection but the audit
  log is as before.
\<close>

theorem C7_edit_frame:
  "(edit env st actor idp body = (Inr r, st') \<longrightarrow>
      (\<exists>rid pe. idp = ObjectId rid \<and> findById (personal_expenses st) rid = Some pe
          \<and> pe_user pe = u_id actor \<and> pe_status pe = Draft))
   \<and> (findById (personal_expenses st) rid = Some pe \<and> pe_status pe \<noteq> Draft \<longrightarrow>
        edit env st actor (ObjectId rid) body =
          (Inl (if pe_user pe = u_id actor then InvalidState else NotOwner), st))
   \<and> (edit env st actor idp body = (Inl e, st') \<longrightarrow> st' = st)
   \<and> (edit env st actor (ObjectId rid) body = (Inr r, st')
        \<and> findById (personal_expenses st) rid = Some pe \<longrightarrow>
        (\<exists>pe'. r = Some pe' \<and> findById (personal_expenses st') rid = Some pe'
           \<and> same_fixed_attributes pe' pe
           \<and> pe' = (apply_updatable body pe)\<lparr>pe_updatedAt := pe_updatedAt pe'\<rparr>
           \<and> (\<forall>j. j \<noteq> rid \<longrightarrow> findById (personal_expenses st') j = findById (personal_expenses st) j)
           \<and> users st' = users st \<and> approvals st' = approvals st
           \<and> expense_entries st' = expense_entries st \<and> income_entries st' = income_entries st
           \<and> notifications st' = notifications st))"
proof (intro conjI impI)
  assume "edit env st actor idp body = (Inr r, st')"
  then show "\<exists>rid pe. idp = ObjectId rid \<and> findById (personal_expenses st) rid = Some pe
          \<and> pe_user pe = u_id actor \<and> pe_status pe = Draft"
    by (rule edit_ok_only[THEN exE]) blast
next
  assume "findById (personal_expenses st) rid = Some pe \<and> pe_status pe \<noteq> Draft"
  then show "edit env st actor (ObjectId rid) body =
          (Inl (if pe_user pe = u_id actor then InvalidState else NotOwner), st)"
    by (simp add: edit_not_draft)
next
  assume "edit env st actor idp body = (Inl e, st')"
  then show "st' = st" by (rule edit_error_unchanged)
next
  assume "edit env st actor (ObjectId rid) body = (Inr r, st')
        \<and> findById (personal_expenses st) rid = Some pe"
  then have "edit env st actor (ObjectId rid) body = (Inr r, st')"
    and "findById (personal_expenses st) rid = Some pe" by simp_all
  then show "\<exists>pe'. r = Some pe' \<and> findById (personal_expenses st') rid = Some pe'
           \<and> same_fixed_attributes pe' pe
           \<and> pe' = (apply_updatable body pe)\<lparr>pe_updatedAt := pe_updatedAt pe'\<rparr>
           \<and> (\<forall>j. j \<noteq> rid \<longrightarrow> findById (personal_expenses st') j = findById (personal_expenses st) j)
           \<and> users st' = users st \<and> approvals st' = approvals st
           \<and> expense_entries st' = expense_entries st \<and> income_entries st' = income_entries st
           \<and> notifications st' = notifications st"
    by (rule edit_ok_frame)
qed


lemma ex_edit_ok:
  "\<exists>r st'. edit ex_env ex_state_draft ex_owner (ObjectId 2) ex_edit_body = (Inr r, st')"
  by (simp add: ex_defs ex_state_draft_def ex_draft_def ex_edit_body_def no_edit_def edit_def
      findById_def edit_body_ok_def field_ok_def num_field_ok_def castable_def
      PersonalExpense_save_def createAudit_def Let_def)


theorem C7_edit_frame_witness:
  "findById (personal_expenses ex_state_draft) 1 = Some ex_request \<and> pe_status ex_request \<noteq> Draft
   \<and> pe_user ex_request = u_id ex_owner
   \<and> edit ex_env ex_state_draft ex_owner (ObjectId 1) ex_edit_body = (Inl InvalidState, ex_state_draft)
   \<and> findById (personal_expenses ex_state_draft) 2 = Some ex_draft
   \<and> (\<exists>pe' st'. edit ex_env ex_state_draft ex_owner (ObjectId 2) ex_edit_body = (Inr (Some pe'), st')
         \<and> pe_user ex_draft = u_id ex_owner \<and> pe_status ex_draft = Draft
         \<and> findById (personal_expenses st') 2 = Some pe'
         \<and> same_fixed_attributes pe' ex_draft
         \<and> pe_title pe' = ''Oven'' \<and> pe_amount_avg pe' = Fin 270 \<and> pe_amount_min pe' = Fin 200
         \<and> findById (personal_expenses st') 1 = Some ex_request
         \<and> approvals st' = approvals ex_state_draft)"
proof -
  have f1: "findById (personal_expenses ex_state_draft) 1 = Some ex_request"
    and f2: "findById (personal_expenses ex_state_draft) 2 = Some ex_draft"
    by (simp_all add: ex_state_draft_def ex_state_def findById_def ex_request_def ex_draft_def)
  have nd: "pe_status ex_request \<noteq> Draft" and ow: "pe_user ex_request = u_id ex_owner"
    by (simp_all add: ex_request_def ex_owner_def)
  obtain r st' where ok: "edit ex_env ex_state_draft ex_owner (ObjectId 2) ex_edit_body = (Inr r, st')"
    using ex_edit_ok by blast
  note T1 = C7_edit_frame[where env=ex_env and st=ex_state_draft and actor=ex_owner
      and idp="ObjectId 1" and body=ex_edit_body and rid=1 and pe=ex_request]
  note T2 = C7_edit_frame[where env=ex_env and st=ex_state_draft and actor=ex_owner
      and idp="ObjectId 2" and body=ex_edit_body and rid=2 and pe=ex_draft and r=r and st'=st']
  have e1: "edit ex_env ex_state_draft ex_owner (ObjectId 1) ex_edit_body = (Inl InvalidState, ex_state_draft)"
    using T1 f1 nd ow by simp
  from T2 ok have "\<exists>rid pe. ObjectId 2 = ObjectId rid \<and> findById (personal_expenses ex_state_draft) rid = Some pe
          \<and> pe_user pe = u_id ex_owner \<and> pe_status pe = Draft" by blast
  with f2 have own: "pe_user ex_draft = u_id ex_owner \<and> pe_status ex_draft = Draft" by auto
  from T2 ok f2 obtain pe' where pe': "r = Some pe'" "findById (personal_expenses st') 2 = Some pe'"
    "same_fixed_attributes pe' ex_draft"
    "pe' = (apply_updatable ex_edit_body ex_draft)\<lparr>pe_updatedAt := pe_updatedAt pe'\<rparr>"
    "\<forall>j. j \<noteq> 2 \<longrightarrow> findById (personal_expenses st') j = findById (personal_expenses ex_state_draft) j"
    "approvals st' = approvals ex_state_draft"
    by blast
  have "pe_title pe' = pe_title (apply_updatable ex_edit_body ex_draft)"
    "pe_amount_avg pe' = pe_amount_avg (apply_updatable ex_edit_body ex_draft)"
    "pe_amount_min pe' = pe_amount_min (apply_updatable ex_edit_body ex_draft)"
    by (subst pe'(4), simp)+
  then have vals: "pe_title pe' = ''Oven''" "pe_amount_avg pe' = Fin 270" "pe_amount_min pe' = Fin 200"
    by (simp_all add: apply_updatable_def apply_field_def ex_edit_body_def no_edit_def ex_draft_def
        ex_request_def)
  have "findById (personal_expenses st') 1 = Some ex_request" using pe'(5) f1 by simp
  then show ?thesis using f1 f2 nd ow e1 ok own pe' vals by blast
qed


text \<open>
  Claim C7 as stated fails twice: an edit of a pending request by somebody who is not its owner
  is answered NotOwner, not InvalidState, and a successful edit moves \<^verbatim>\<open>updatedAt\<close>, which
  is not an editable attribute.
\<close>

theorem C7_counterexample:
  "findById (personal_expenses ex_state) 1 = Some ex_request \<and> pe_status ex_request \<noteq> Draft
   \<and> edit ex_env ex_state ex_adminA (ObjectId 1) ex_edit_body = (Inl NotOwner, ex_state)
   \<and> Inl NotOwner \<noteq> (Inl InvalidState :: error + personal_expense option)
   \<and> pe_updatedAt ex_draft = 20
   \<and> map_option pe_updatedAt
        (findById (personal_expenses
           (snd (edit ex_env ex_state_draft ex_owner (ObjectId 2) ex_edit_body))) 2) = Some 1000"
  by (simp add: ex_defs ex_state_draft_def ex_draft_def ex_edit_body_def no_edit_def edit_def
      findById_def edit_body_ok_def field_ok_def num_field_ok_def castable_def apply_updatable_def
      apply_field_def PersonalExpense_save_def createAudit_def Let_def)


section \<open>Quorum\<close>

lemma update_first_length [simp]: "length (update_first P y xs) = length xs"
  by (induction xs) auto












lemma upsert_inserts:
  assumes "find (same_vote rid aid) rows = None"
  shows "snd (Approval_create_or_update t rows rid aid d amount)
           = rows @ [fst (Approval_create_or_update t rows rid aid d amount)]"
  using assms by (simp add: Approval_create_or_update_def Let_def)












lemma normalized_approve_body [simp]:
  "normalized_amount (b_approved_amount (approve_body x)) = Some x"
  by (simp add: approve_body_def normalized_amount_def)







lemma branch_approval:
  "approve_step env st actor pe row = (Inr resp, st') \<Longrightarrow> r_approval resp = row"
  "reject_final env st actor pe row = (Inr resp, st') \<Longrightarrow> r_approval resp = row"
  by (auto simp: approve_step_def finalize_def reject_final_def Let_def case_prod_beta
      split: if_splits)

lemma decide_ok_recorded:
  assumes "decide env st actor (ObjectId rid) body = (Inr resp, st')"
  shows "\<exists>d pe. parse_decision (b_decision body) = Some d
           \<and> findById (personal_expenses st) rid = Some pe \<and> pe_status pe = Pending
           \<and> approvals st' = snd (Approval_create_or_update (now env) (approvals st) rid (u_id actor) d
                                     (normalized_amount (b_approved_amount body)))
           \<and> r_approval resp = fst (Approval_create_or_update (now env) (approvals st) rid (u_id actor) d
                                     (normalized_amount (b_approved_amount body)))
           \<and> users st' = users st
           \<and> (if d = Reject
               then decide env st actor (ObjectId rid) body =
                      reject_final env (recorded env st actor rid body d) actor pe
                        (recorded_row env st actor rid body d)
               else decide env st actor (ObjectId rid) body =
                      approve_step env (recorded env st actor rid body d) actor pe
                        (recorded_row env st actor rid body d))"
proof (rule decide_cases[where env=env and st=st and actor=actor and idp="ObjectId rid" and body=body],
    goal_cases)
  case (1 e)
  then show ?case using assms by simp
next
  case rec: (2 rid' pe d)
  have r: "rid' = rid" using rec(1) by simp
  let ?r = "recorded env st actor rid body d"
  let ?row = "recorded_row env st actor rid body d"
  have f: "findById (personal_expenses st) rid = Some pe" using rec(3) r by simp
  have eq: "decide env st actor (ObjectId rid) body =
      (if d = Reject then reject_final env ?r actor pe ?row else approve_step env ?r actor pe ?row)"
    using decide_recorded[OF rec(2) f rec(4-7), of env] .
  have id: "pe_id pe = rid" using f by (rule findById_Some_id)
  have fr: "findById (personal_expenses ?r) (pe_id pe) = Some pe" using f id by simp
  have "approvals st' = approvals ?r \<and> users st' = users ?r \<and> r_approval resp = ?row"
  proof (cases "d = Reject")
    case True
    then have e: "reject_final env ?r actor pe ?row = (Inr resp, st')" using eq assms by simp
    then have "st' = snd (reject_final env ?r actor pe ?row)" by simp
    then show ?thesis
      using reject_final_result(3)[OF fr, of env actor ?row] branch_approval(2)[OF e]
      by (simp add: reject_final_def Let_def case_prod_beta)
  next
    case False
    then have e: "approve_step env ?r actor pe ?row = (Inr resp, st')" using eq assms by simp
    then have "st' = snd (approve_step env ?r actor pe ?row)" by simp
    then show ?thesis using branch_approval(1)[OF e] by simp
  qed
  then show ?case using rec(5) f rec(4) eq by (auto simp: recorded_row_def)
qed











section \<open>Ledger and reports\<close>

lemma contains_append: "contains p (a @ p @ b)"
proof (induction a)
  case Nil
  show ?case
  proof (cases "p @ b")
    case Nil
    then show ?thesis by simp
  next
    case (Cons x xs)
    have "prefix p (p @ b)" by simp
    then show ?thesis using Cons by simp
  qed
next
  case (Cons x a)
  then show ?case by simp
qed

lemma regex_i_literal: "regex_i p (a @ p @ b)"
  using contains_append[of "map toLower p" "map toLower a" "map toLower b"]
  by (simp add: regex_i_def)

lemma materialized_tagged: "tagged_with (pe_id pe) (materialized_entry env actor pe v)"
  using regex_i_literal[of "oid_str (pe_id pe)" "''Approved personal expense (id: ''" "'')''"]
  by (simp add: tagged_with_def materialized_entry_def)

lemma materialize_found:
  "find (tagged_with (pe_id pe)) (expense_entries st) = Some e0 \<Longrightarrow>
   materialize env st actor pe v = st"
  by (simp add: materialize_def)

lemma materialize_new:
  assumes "find (tagged_with (pe_id pe)) (expense_entries st) = None" "storable pe" "castable v"
  shows "expense_entries (materialize env st actor pe v)
           = expense_entries st @ [materialized_entry env actor pe v]"
  using assms
  by (simp add: materialize_def materialized_entry_def Let_def entry_castable_def
      castable_opt_def storable_def)

lemma find_append_tagged:
  "P e \<Longrightarrow> \<exists>e0. find P (xs @ [e]) = Some e0"
  by (induction xs) auto

lemma filter_none: "find P xs = None \<Longrightarrow> filter P xs = []"
  by (induction xs) (auto split: if_splits)

text \<open>
  Claim C4. The materializer first looks for a ledger entry whose note holds the identifier of
  the request; when there is one it returns the state as it is, whatever the amount it was
  called with. When there is none (and the Numbers of the request and the amount can be stored)
  it adds one entry, tagged with the identifier and carrying the amount, and a second
  materialization of the request, by any admin at any time with any amount, writes nothing: the
  ledger holds exactly one entry tagged for the request, with the amount of the first.
\<close>

theorem C4_materialize_idempotent:
  "(find (tagged_with (pe_id pe)) (expense_entries st) = Some e0 \<longrightarrow>
      materialize env st actor pe v = st)
   \<and> (find (tagged_with (pe_id pe)) (expense_entries st) = None \<and> storable pe \<and> castable v
        \<and> pe_id pe' = pe_id pe \<longrightarrow>
      expense_entries (materialize env st actor pe v)
        = expense_entries st @ [materialized_entry env actor pe v]
      \<and> ee_actual_amount (materialized_entry env actor pe v) = Some v
      \<and> tagged_with (pe_id pe) (materialized_entry env actor pe v)
      \<and> materialize env' (materialize env st actor pe v) actor' pe' v'
           = materialize env st actor pe v
      \<and> length (filter (tagged_with (pe_id pe))
                  (expense_entries (materialize env' (materialize env st actor pe v) actor' pe' v')))
           = 1)"
proof -
  have A: "find (tagged_with (pe_id pe)) (expense_entries st) = Some e0 \<longrightarrow>
      materialize env st actor pe v = st"
    by (simp add: materialize_found)
  have B: "expense_entries (materialize env st actor pe v)
        = expense_entries st @ [materialized_entry env actor pe v]
      \<and> ee_actual_amount (materialized_entry env actor pe v) = Some v
      \<and> tagged_with (pe_id pe) (materialized_entry env actor pe v)
      \<and> materialize env' (materialize env st actor pe v) actor' pe' v'
           = materialize env st actor pe v
      \<and> length (filter (tagged_with (pe_id pe))
                  (expense_entries (materialize env' (materialize env st actor pe v) actor' pe' v')))
           = 1"
    if h: "find (tagged_with (pe_id pe)) (expense_entries st) = None \<and> storable pe \<and> castable v
        \<and> pe_id pe' = pe_id pe"
  proof -
    let ?st1 = "materialize env st actor pe v"
    let ?e = "materialized_entry env actor pe v"
    have new: "expense_entries ?st1 = expense_entries st @ [?e]"
      using h by (intro materialize_new) simp_all
    have tg: "tagged_with (pe_id pe) ?e" by (rule materialized_tagged)
    obtain e1 where "find (tagged_with (pe_id pe')) (expense_entries ?st1) = Some e1"
      using find_append_tagged[of "tagged_with (pe_id pe)" ?e "expense_entries st"] tg new h by auto
    then have again: "materialize env' ?st1 actor' pe' v' = ?st1" by (rule materialize_found)
    have "filter (tagged_with (pe_id pe)) (expense_entries st) = []"
      using h by (intro filter_none) simp
    then have "length (filter (tagged_with (pe_id pe)) (expense_entries ?st1)) = 1"
      using new tg by simp
    then show ?thesis using new tg again by (simp add: materialized_entry_def)
  qed
  show ?thesis using A B by blast
qed


theorem C4_materialize_idempotent_witness:
  "find (tagged_with (pe_id ex_request)) (expense_entries ex_state) = None
   \<and> storable ex_request \<and> castable (Fin 300)
   \<and> expense_entries (materialize ex_env ex_state ex_adminB ex_request (Fin 300))
        = [materialized_entry ex_env ex_adminB ex_request (Fin 300)]
   \<and> find (tagged_with (pe_id ex_request))
        (expense_entries (materialize ex_env ex_state ex_adminB ex_request (Fin 300)))
        = Some (materialized_entry ex_env ex_adminB ex_request (Fin 300))
   \<and> materialize (ex_env\<lparr>now := 2000\<rparr>) (materialize ex_env ex_state ex_adminB ex_request (Fin 300))
        ex_adminA ex_request (Fin 350)
        = materialize ex_env ex_state ex_adminB ex_request (Fin 300)
   \<and> map ee_actual_amount
        (expense_entries
          (materialize (ex_env\<lparr>now := 2000\<rparr>) (materialize ex_env ex_state ex_adminB ex_request (Fin 300))
             ex_adminA ex_request (Fin 350)))
        = [Some (Fin 300)]"
proof -
  have n: "find (tagged_with (pe_id ex_request)) (expense_entries ex_state) = None"
    by (simp add: ex_state_def)
  have s: "storable ex_request" by (simp add: storable_def ex_request_def castable_def)
  have c: "castable (Fin 300)" by (simp add: castable_def)
  note T = C4_materialize_idempotent[where pe=ex_request and st=ex_state and env=ex_env
      and actor=ex_adminB and v="Fin 300" and pe'=ex_request and env'="ex_env\<lparr>now := 2000\<rparr>"
      and actor'=ex_adminA and v'="Fin 350"]
  let ?st1 = "materialize ex_env ex_state ex_adminB ex_request (Fin 300)"
  let ?e = "materialized_entry ex_env ex_adminB ex_request (Fin 300)"
  from T n s c have 1: "expense_entries ?st1 = expense_entries ex_state @ [?e]"
    and 2: "ee_actual_amount ?e = Some (Fin 300)"
    and 3: "tagged_with (pe_id ex_request) ?e"
    by simp_all
  have only: "expense_entries ?st1 = [?e]" using 1 by (simp add: ex_state_def)
  have f: "find (tagged_with (pe_id ex_request)) (expense_entries ?st1) = Some ?e"
    using only 3 by simp
  have 4: "materialize (ex_env\<lparr>now := 2000\<rparr>) ?st1 ex_adminA ex_request (Fin 350) = ?st1"
    using C4_materialize_idempotent[where pe=ex_request and st="materialize ex_env ex_state ex_adminB ex_request (Fin 300)"
        and ?e0.0="materialized_entry ex_env ex_adminB ex_request (Fin 300)"
        and env="ex_env\<lparr>now := 2000\<rparr>" and actor=ex_adminA and v="Fin 350"] f by simp
  have 5: "map ee_actual_amount
        (expense_entries (materialize (ex_env\<lparr>now := 2000\<rparr>) ?st1 ex_adminA ex_request (Fin 350)))
        = [Some (Fin 300)]"
    using 4 only 2 by simp
  show ?thesis using n s c only f 4 5 by (intro conjI)
qed


lemma is_finite_Fin: "is_finite x \<Longrightarrow> x = Fin (fin_val x)"
  by (cases x) (auto simp: is_finite_def fin_val_def)

lemma js_sum_finite:
  assumes "\<forall>x\<in>set xs. is_finite (f x)"
  shows "js_sum (map f xs) = Fin (\<Sum>x\<leftarrow>xs. fin_val (f x))"
proof -
  have "map f xs = map Fin (map (\<lambda>x. fin_val (f x)) xs)"
    using assms is_finite_Fin by (induction xs) auto
  then have "js_sum (map f xs) = foldl js_add (Fin 0) (map Fin (map (\<lambda>x. fin_val (f x)) xs))"
    unfolding js_sum_def by (rule arg_cong)
  then show ?thesis by (simp only: foldl_js_add_Fin add_0)
qed

lemma or_zero_Fin [simp]: "or_zero (Fin a) = Fin a"
  by (simp add: or_zero_def)

lemma expMatch_iff:
  "expMatch start end' e \<longleftrightarrow> start \<le> ee_date e \<and> ee_date e \<le> end' \<and> \<not> personal_derived e"
  by (auto simp: expMatch_def personal_derived_def split: option.splits)

lemma materialized_personal_derived: "personal_derived (materialized_entry env actor pe v)"
  using regex_i_literal[of "''Approved personal expense''" "[]" "'' (id: '' @ oid_str (pe_id pe) @ '')''"]
  by (simp add: personal_derived_def materialized_entry_def)

lemma finite_entry_amount:
  "finite_opt (ee_actual_amount e) \<Longrightarrow> finite_opt (ee_amount_avg e) \<Longrightarrow> is_finite (entry_amount e)"
  by (auto simp: entry_amount_def finite_opt_def is_finite_def split: option.splits)

lemma finite_personal_amount:
  "finite_opt (pe_approved_amount p) \<Longrightarrow> finite_opt (pe_requested_amount p) \<Longrightarrow>
   is_finite (pe_amount_avg p) \<Longrightarrow> is_finite (personal_amount p)"
  by (auto simp: personal_amount_def finite_opt_def split: option.splits)

lemma finite_opt_or_zero: "finite_opt x \<Longrightarrow> is_finite (opt_or_zero x)"
  by (auto simp: opt_or_zero_def finite_opt_def is_finite_def split: option.splits)

lemma remaining_report_finite:
  assumes "finite_ledger st"
  shows "totalIncome (remaining_report st start end') =
           Fin (\<Sum>i\<leftarrow>filter (\<lambda>i. start \<le> ie_date i \<and> ie_date i \<le> end') (income_entries st).
                  fin_val (ie_amount i))"
    and "totalGlobalExpenses (remaining_report st start end') =
           Fin (\<Sum>e\<leftarrow>filter (\<lambda>e. start \<le> ee_date e \<and> ee_date e \<le> end' \<and> \<not> personal_derived e)
                      (expense_entries st). fin_val (entry_amount e))"
    and "totalPersonalApproved (remaining_report st start end') =
           Fin (\<Sum>p\<leftarrow>filter (peMatch start end') (personal_expenses st). fin_val (personal_amount p))"
proof -
  have i: "\<forall>x\<in>set (filter (\<lambda>i. start \<le> ie_date i \<and> ie_date i \<le> end') (income_entries st)).
            is_finite (ie_amount x)"
    using assms by (auto simp: finite_ledger_def)
  have e: "\<forall>x\<in>set (filter (expMatch start end') (expense_entries st)). is_finite (entry_amount x)"
    using assms finite_entry_amount by (auto simp: finite_ledger_def)
  have p: "\<forall>x\<in>set (filter (peMatch start end') (personal_expenses st)). is_finite (personal_amount x)"
    using assms finite_personal_amount by (auto simp: finite_ledger_def)
  have em: "expMatch start end' = (\<lambda>e. start \<le> ee_date e \<and> ee_date e \<le> end' \<and> \<not> personal_derived e)"
    by (rule ext) (rule expMatch_iff)
  show "totalIncome (remaining_report st start end') =
           Fin (\<Sum>i\<leftarrow>filter (\<lambda>i. start \<le> ie_date i \<and> ie_date i \<le> end') (income_entries st).
                  fin_val (ie_amount i))"
    by (simp add: remaining_report_def Let_def js_sum_finite[OF i])
  show "totalGlobalExpenses (remaining_report st start end') =
           Fin (\<Sum>e\<leftarrow>filter (\<lambda>e. start \<le> ee_date e \<and> ee_date e \<le> end' \<and> \<not> personal_derived e)
                      (expense_entries st). fin_val (entry_amount e))"
    using js_sum_finite[OF e] by (simp add: remaining_report_def Let_def em)
  show "totalPersonalApproved (remaining_report st start end') =
           Fin (\<Sum>p\<leftarrow>filter (peMatch start end') (personal_expenses st). fin_val (personal_amount p))"
    by (simp add: remaining_report_def Let_def js_sum_finite[OF p])
qed

lemma remaining_report_totals:
  assumes "finite_ledger st"
  shows "totalExpenses (remaining_report st start end') =
           js_add (totalGlobalExpenses (remaining_report st start end'))
                  (totalPersonalApproved (remaining_report st start end'))"
    and "remaining (remaining_report st start end') =
           js_sub (totalIncome (remaining_report st start end'))
                  (totalExpenses (remaining_report st start end'))"
proof -
  obtain a b c where
    "totalIncome (remaining_report st start end') = Fin a"
    "totalGlobalExpenses (remaining_report st start end') = Fin b"
    "totalPersonalApproved (remaining_report st start end') = Fin c"
    using remaining_report_finite[OF assms, of start end'] by blast
  then show "totalExpenses (remaining_report st start end') =
           js_add (totalGlobalExpenses (remaining_report st start end'))
                  (totalPersonalApproved (remaining_report st start end'))"
    and "remaining (remaining_report st start end') =
           js_sub (totalIncome (remaining_report st start end'))
                  (totalExpenses (remaining_report st start end'))"
    by (simp_all add: remaining_report_def Let_def)
qed


text \<open>
  Claim C5. On a database whose amounts are finite, the report of \<^verbatim>\<open>/reports/remaining\<close> gives:
  the income of the range; the ledger total (sent as \<^verbatim>\<open>totalGlobalExpenses\<close>), the sum over the
  entries of the range that are not personal-derived of the actual amount, or of the average
  estimate when there is none; the personal total, the sum over the approved requests of the
  range of the approved amount, or the requested amount, or the average estimate; their sum;
  and the income minus that sum. An entry made by the materializer is personal-derived. The
  witness is the example of the claim: 1000, 0, 300, 300, 700.
\<close>

theorem C5_remaining_report:
  "(finite_ledger st \<longrightarrow>
      totalIncome (remaining_report st start end') =
        Fin (\<Sum>i\<leftarrow>filter (\<lambda>i. start \<le> ie_date i \<and> ie_date i \<le> end') (income_entries st).
               fin_val (ie_amount i))
      \<and> totalGlobalExpenses (remaining_report st start end') =
        Fin (\<Sum>e\<leftarrow>filter (\<lambda>e. start \<le> ee_date e \<and> ee_date e \<le> end' \<and> \<not> personal_derived e)
                   (expense_entries st). fin_val (entry_amount e))
      \<and> totalPersonalApproved (remaining_report st start end') =
        Fin (\<Sum>p\<leftarrow>filter (peMatch start end') (personal_expenses st). fin_val (personal_amount p))
      \<and> totalExpenses (remaining_report st start end') =
        js_add (totalGlobalExpenses (remaining_report st start end'))
               (totalPersonalApproved (remaining_report st start end'))
      \<and> remaining (remaining_report st start end') =
        js_sub (totalIncome (remaining_report st start end'))
               (totalExpenses (remaining_report st start end')))
   \<and> personal_derived (materialized_entry env actor pe v)
   \<and> entry_amount e =
        (case ee_actual_amount e of Some a \<Rightarrow> a
         | None \<Rightarrow> (case ee_amount_avg e of Some a \<Rightarrow> a | None \<Rightarrow> Fin 0))
   \<and> personal_amount p =
        (case pe_approved_amount p of Some a \<Rightarrow> a
         | None \<Rightarrow> (case pe_requested_amount p of Some a \<Rightarrow> a | None \<Rightarrow> pe_amount_avg p))"
  using remaining_report_finite[of st start end'] remaining_report_totals[of st start end']
    materialized_personal_derived[of env actor pe v]
  by (simp add: entry_amount_def personal_amount_def)

lemma ex_ledger_finite: "finite_ledger ex_ledger"
  by (simp add: finite_ledger_def ex_ledger_def ex_income_def ex_approved_def ex_request_def
      materialized_entry_def is_finite_def finite_opt_def)

theorem C5_remaining_report_witness:
  "finite_ledger ex_ledger
   \<and> income_entries ex_ledger = [ex_income] \<and> ie_amount ex_income = Fin 1000
   \<and> expense_entries ex_ledger = [materialized_entry ex_env ex_adminB ex_approved (Fin 300)]
   \<and> personal_expenses ex_ledger = [ex_approved] \<and> pe_status ex_approved = Approved
   \<and> pe_approved_amount ex_approved = Some (Fin 300)
   \<and> totalIncome (remaining_report ex_ledger 0 100) = Fin 1000
   \<and> totalGlobalExpenses (remaining_report ex_ledger 0 100) = Fin 0
   \<and> totalPersonalApproved (remaining_report ex_ledger 0 100) = Fin 300
   \<and> totalExpenses (remaining_report ex_ledger 0 100) = Fin 300
   \<and> remaining (remaining_report ex_ledger 0 100) = Fin 700"
proof -
  note T = C5_remaining_report[where st=ex_ledger and start=0 and end'=100 and env=ex_env
      and actor=ex_adminB and pe=ex_approved and v="Fin 300"]
  have pd: "personal_derived (materialized_entry ex_env ex_adminB ex_approved (Fin 300))"
    using T by simp
  have m: "peMatch 0 100 ex_approved"
    by (simp add: peMatch_def ex_approved_def ex_request_def)
  have a: "personal_amount ex_approved = Fin 300"
    by (simp add: personal_amount_def ex_approved_def)
  have i: "totalIncome (remaining_report ex_ledger 0 100) = Fin 1000"
    using T ex_ledger_finite by (simp add: ex_ledger_def ex_income_def fin_val_def)
  have g: "totalGlobalExpenses (remaining_report ex_ledger 0 100) = Fin 0"
    using T ex_ledger_finite pd by (simp add: ex_ledger_def)
  have p: "totalPersonalApproved (remaining_report ex_ledger 0 100) = Fin 300"
    using T ex_ledger_finite m a by (simp add: ex_ledger_def fin_val_def)
  have t: "totalExpenses (remaining_report ex_ledger 0 100) = Fin 300"
    using T ex_ledger_finite g p by simp
  have r: "remaining (remaining_report ex_ledger 0 100) = Fin 700"
    using T ex_ledger_finite i t by (simp add: js_sub_def)
  show ?thesis
    using ex_ledger_finite i g p t r
    by (simp add: ex_ledger_def ex_income_def ex_approved_def)
qed


lemma monthly_finite:
  assumes "finite_ledger st"
  shows "incomeTotal (computeMonthlyTotals st start end') =
           Fin (\<Sum>i\<leftarrow>filter (\<lambda>i. in_month start end' (ie_date i)) (income_entries st).
                  fin_val (ie_amount i))"
    and "expenseTotalFromEntries (computeMonthlyTotals st start end') =
           Fin (\<Sum>e\<leftarrow>filter (\<lambda>e. in_month start end' (ee_date e)) (expense_entries st).
                  fin_val (opt_or_zero (ee_actual_amount e)))"
    and "expenseTotalFromPersonal (computeMonthlyTotals st start end') =
           Fin (\<Sum>p\<leftarrow>filter (approved_in_month start end') (personal_expenses st).
                  fin_val (opt_or_zero (pe_approved_amount p)))"
proof -
  have i: "\<forall>x\<in>set (filter (\<lambda>i. start \<le> ie_date i \<and> ie_date i < end') (income_entries st)).
            is_finite (ie_amount x)"
    using assms by (auto simp: finite_ledger_def)
  have e: "\<forall>x\<in>set (filter (\<lambda>e. start \<le> ee_date e \<and> ee_date e < end') (expense_entries st)).
            is_finite (opt_or_zero (ee_actual_amount x))"
    using assms finite_opt_or_zero by (auto simp: finite_ledger_def)
  have p: "\<forall>x\<in>set (filter (\<lambda>p. pe_status p = Approved \<and>
                 (case pe_approved_at p of None \<Rightarrow> False | Some t \<Rightarrow> start \<le> t \<and> t < end'))
               (personal_expenses st)). is_finite (opt_or_zero (pe_approved_amount x))"
    using assms finite_opt_or_zero by (auto simp: finite_ledger_def)
  show "incomeTotal (computeMonthlyTotals st start end') =
           Fin (\<Sum>i\<leftarrow>filter (\<lambda>i. in_month start end' (ie_date i)) (income_entries st).
                  fin_val (ie_amount i))"
    by (simp add: computeMonthlyTotals_def Let_def js_sum_finite[OF i] in_month_def)
  show "expenseTotalFromEntries (computeMonthlyTotals st start end') =
           Fin (\<Sum>e\<leftarrow>filter (\<lambda>e. in_month start end' (ee_date e)) (expense_entries st).
                  fin_val (opt_or_zero (ee_actual_amount e)))"
    by (simp add: computeMonthlyTotals_def Let_def js_sum_finite[OF e] in_month_def)
  show "expenseTotalFromPersonal (computeMonthlyTotals st start end') =
           Fin (\<Sum>p\<leftarrow>filter (approved_in_month start end') (personal_expenses st).
                  fin_val (opt_or_zero (pe_approved_amount p)))"
    using js_sum_finite[OF p]
    by (simp add: computeMonthlyTotals_def Let_def approved_in_month_def[abs_def])
qed

lemma monthly_total:
  assumes "finite_ledger st"
  shows "monthTotalExpenses (computeMonthlyTotals st start end') =
           Fin ((\<Sum>e\<leftarrow>filter (\<lambda>e. in_month start end' (ee_date e)) (expense_entries st).
                  fin_val (opt_or_zero (ee_actual_amount e)))
              + (\<Sum>p\<leftarrow>filter (approved_in_month start end') (personal_expenses st).
                  fin_val (opt_or_zero (pe_approved_amount p))))"
proof -
  have "monthTotalExpenses (computeMonthlyTotals st start end') =
      js_add (expenseTotalFromEntries (computeMonthlyTotals st start end'))
             (expenseTotalFromPersonal (computeMonthlyTotals st start end'))"
    by (simp add: computeMonthlyTotals_def Let_def)
  then show ?thesis using monthly_finite(2,3)[OF assms, of start end'] by simp
qed

lemma sum_filter_member:
  fixes f :: "'a \<Rightarrow> rat"
  assumes "x \<in> set xs" "P x"
  shows "(\<Sum>y\<leftarrow>filter P xs. f y) = f x + (\<Sum>y\<leftarrow>filter P (remove1 x xs). f y)"
  using assms
proof (induction xs)
  case Nil
  then show ?case by simp
next
  case (Cons a xs)
  then show ?case by (cases "a = x") auto
qed

lemma monthly_counts_twice:
  assumes fin: "finite_ledger st"
    and e: "e \<in> set (expense_entries st)" "in_month start end' (ee_date e)"
      "ee_actual_amount e = Some (Fin a)"
    and p: "p \<in> set (personal_expenses st)" "approved_in_month start end' p"
      "pe_approved_amount p = Some (Fin a)"
  shows "monthTotalExpenses (computeMonthlyTotals st start end') =
           Fin (a + a
              + (\<Sum>e'\<leftarrow>filter (\<lambda>e. in_month start end' (ee_date e)) (remove1 e (expense_entries st)).
                  fin_val (opt_or_zero (ee_actual_amount e')))
              + (\<Sum>p'\<leftarrow>filter (approved_in_month start end') (remove1 p (personal_expenses st)).
                  fin_val (opt_or_zero (pe_approved_amount p'))))"
proof -
  have "(\<Sum>e'\<leftarrow>filter (\<lambda>e. in_month start end' (ee_date e)) (expense_entries st).
            fin_val (opt_or_zero (ee_actual_amount e')))
      = a + (\<Sum>e'\<leftarrow>filter (\<lambda>e. in_month start end' (ee_date e)) (remove1 e (expense_entries st)).
            fin_val (opt_or_zero (ee_actual_amount e')))"
    using sum_filter_member[OF e(1), of "\<lambda>e. in_month start end' (ee_date e)"
        "\<lambda>e. fin_val (opt_or_zero (ee_actual_amount e))"] e(2,3)
    by (simp add: opt_or_zero_def fin_val_def)
  moreover have "(\<Sum>p'\<leftarrow>filter (approved_in_month start end') (personal_expenses st).
            fin_val (opt_or_zero (pe_approved_amount p')))
      = a + (\<Sum>p'\<leftarrow>filter (approved_in_month start end') (remove1 p (personal_expenses st)).
            fin_val (opt_or_zero (pe_approved_amount p')))"
    using sum_filter_member[OF p(1), of "approved_in_month start end'"
        "\<lambda>p. fin_val (opt_or_zero (pe_approved_amount p))"] p(2,3)
    by (simp add: opt_or_zero_def fin_val_def)
  ultimately show ?thesis using monthly_total[OF fin, of start end'] by simp
qed


lemma save_fst_more:
  "pe_amount_min (fst (PersonalExpense_save env st old new)) = pe_amount_min new"
  "pe_amount_max (fst (PersonalExpense_save env st old new)) = pe_amount_max new"
  "pe_approved_at (fst (PersonalExpense_save env st old new)) = pe_approved_at new"
  by (simp_all add: PersonalExpense_save_def Let_def)

lemma finalize_ledger:
  assumes fz: "finalize env st actor pe approval rows = (Inr resp, st')"
    and none: "find (tagged_with (pe_id pe)) (expense_entries st) = None"
    and sto: "storable pe"
  shows "expense_entries st' = expense_entries st
           @ [materialized_entry env actor (r_item resp) (finalApprovedAmount (providedAmounts rows) pe)]"
    and "pe_approved_at (r_item resp) = Some (now env)"
    and "pe_id (r_item resp) = pe_id pe"
proof -
  let ?v = "finalApprovedAmount (providedAmounts rows) pe"
  let ?pe2 = "pe\<lparr>pe_status := Approved, pe_approved_amount := Some ?v,
                   pe_approved_at := Some (now env), approvals_count := length rows\<rparr>"
  let ?sv = "PersonalExpense_save env st pe ?pe2"
  let ?st4 = "createAudit env
                (notify env
                  (createAudit env (snd ?sv) ''personal_expense'' (pe_id pe) ''approved_final''
                     (Some (u_id actor)))
                  (pe_user pe) ''Your personal expense request was approved'')
                ''notification'' (pe_id pe) ''notify_owner_approved'' (Some (u_id actor))"
  have c: "castable ?v" using fz by (auto simp: finalize_def Let_def split: if_splits)
  have r: "r_item resp = fst ?sv" and st': "st' = materialize env ?st4 actor (fst ?sv) ?v"
    using fz c by (auto simp: finalize_def Let_def case_prod_beta)
  have ee: "expense_entries ?st4 = expense_entries st" by simp
  have id: "pe_id (fst ?sv) = pe_id pe" by simp
  have n4: "find (tagged_with (pe_id (fst ?sv))) (expense_entries ?st4) = None"
    using none by (simp only: ee id)
  have s3: "storable (fst ?sv)" using sto by (simp add: storable_def save_fst_fields save_fst_more)
  show "expense_entries st' = expense_entries st @ [materialized_entry env actor (r_item resp) ?v]"
    using materialize_new[OF n4 s3 c, of env actor] by (simp only: st' r ee)
  show "pe_approved_at (r_item resp) = Some (now env)" by (simp add: r save_fst_more)
  show "pe_id (r_item resp) = pe_id pe" by (simp add: r)
qed

lemma findById_mem: "findById docs i = Some p \<Longrightarrow> p \<in> set docs"
  by (auto simp: findById_def find_Some_iff)

lemma decide_final_ledger:
  assumes dec: "decide env st actor (ObjectId rid) body = (Inr resp, st')"
    and msg: "r_message resp = MsgApprovedFinal v"
    and pe: "findById (personal_expenses st) rid = Some pe"
    and none: "find (tagged_with rid) (expense_entries st) = None"
    and sto: "storable pe"
  shows "materialized_entry env actor (r_item resp) v \<in> set (expense_entries st')
       \<and> ee_date (materialized_entry env actor (r_item resp) v) = now env
       \<and> ee_actual_amount (materialized_entry env actor (r_item resp) v) = Some v
       \<and> r_item resp \<in> set (personal_expenses st')
       \<and> pe_status (r_item resp) = Approved
       \<and> pe_approved_at (r_item resp) = Some (now env)
       \<and> pe_approved_amount (r_item resp) = Some v"
proof -
  from decide_ok_recorded[OF dec] obtain d pe0 where d: "parse_decision (b_decision body) = Some d"
    and f0: "findById (personal_expenses st) rid = Some pe0"
    and e: "if d = Reject
               then decide env st actor (ObjectId rid) body =
                      reject_final env (recorded env st actor rid body d) actor pe0
                        (recorded_row env st actor rid body d)
               else decide env st actor (ObjectId rid) body =
                      approve_step env (recorded env st actor rid body d) actor pe0
                        (recorded_row env st actor rid body d)"
    by blast
  have pe0: "pe0 = pe" using f0 pe by simp
  have id: "pe_id pe = rid" using pe by (rule findById_Some_id)
  let ?r = "recorded env st actor rid body d"
  let ?row = "recorded_row env st actor rid body d"
  have fr: "findById (personal_expenses ?r) (pe_id pe) = Some pe" using pe id by simp
  have notrej: "d \<noteq> Reject"
  proof
    assume "d = Reject"
    then have "reject_final env ?r actor pe ?row = (Inr resp, st')" using e dec pe0 by simp
    then have "fst (reject_final env ?r actor pe ?row) = Inr resp" by simp
    then show False using reject_final_result(1)[OF fr, of env actor ?row] msg by auto
  qed
  then have st: "approve_step env ?r actor pe ?row = (Inr resp, st')" using e dec pe0 by simp
  let ?rows = "approve_rows ?r (pe_id pe)"
  let ?sv1 = "PersonalExpense_save env ?r pe (pe\<lparr>approvals_count := length ?rows\<rparr>)"
  have fz: "finalize env (snd ?sv1) actor (fst ?sv1) ?row ?rows = (Inr resp, st')"
    using st msg by (auto simp: approve_step_def Let_def case_prod_beta split: if_splits)
  have none1: "find (tagged_with (pe_id (fst ?sv1))) (expense_entries (snd ?sv1)) = None"
    using none id by simp
  have sto1: "storable (fst ?sv1)" using sto by (simp add: storable_def save_fst_fields save_fst_more)
  have vfin: "v = finalApprovedAmount (providedAmounts ?rows) (fst ?sv1)"
    using finalize_result(1)[OF fz, of "fst ?sv1"] msg save_findById[OF fr, of "pe\<lparr>approvals_count := length ?rows\<rparr>" env pe]
    by simp
  have ent: "expense_entries st' = expense_entries (snd ?sv1) @ [materialized_entry env actor (r_item resp) v]"
    and at: "pe_approved_at (r_item resp) = Some (now env)"
    using finalize_ledger[OF fz none1 sto1] vfin by simp_all
  from decide_final_amount[OF dec msg pe]
  have fa: "pe_approved_amount (r_item resp) = Some v" "pe_status (r_item resp) = Approved"
    "findById (personal_expenses st') rid = Some (r_item resp)" by simp_all
  have "r_item resp \<in> set (personal_expenses st')" using fa(3) by (rule findById_mem)
  moreover have "ee_date (materialized_entry env actor (r_item resp) v) = now env"
    using at by (simp add: materialized_entry_def)
  moreover have "ee_actual_amount (materialized_entry env actor (r_item resp) v) = Some v"
    by (simp add: materialized_entry_def)
  ultimately show ?thesis using ent at fa by simp
qed


lemma filter_remove1_not: "\<not> P x \<Longrightarrow> filter P (remove1 x xs) = filter P xs"
  by (induction xs) auto

lemma remaining_excludes:
  assumes "personal_derived e"
  shows "totalGlobalExpenses (remaining_report (st\<lparr>expense_entries := remove1 e (expense_entries st)\<rparr>) start end')
       = totalGlobalExpenses (remaining_report st start end')"
proof -
  have "\<not> expMatch start end' e" using assms by (simp add: expMatch_iff)
  then show ?thesis by (simp add: remaining_report_def Let_def filter_remove1_not)
qed

text \<open>
  Claim C9. \<^verbatim>\<open>computeMonthlyTotals\<close> sums the actual amount of every ledger entry dated in the
  month, personal-derived or not, and the approved amount of every request approved in the
  month. So an entry and a request of the month with the same amount put that amount twice into
  the month's total; and a finalizing decide call leaves exactly such a pair, both dated at the
  time of the call. The report of \<^verbatim>\<open>/reports/remaining\<close> does not change when a personal-derived
  entry is taken out of the ledger.
\<close>

theorem C9_monthly_double_count:
  "(finite_ledger st \<longrightarrow>
      expenseTotalFromEntries (computeMonthlyTotals st start end') =
        Fin (\<Sum>e\<leftarrow>filter (\<lambda>e. in_month start end' (ee_date e)) (expense_entries st).
               fin_val (opt_or_zero (ee_actual_amount e)))
      \<and> expenseTotalFromPersonal (computeMonthlyTotals st start end') =
        Fin (\<Sum>p\<leftarrow>filter (approved_in_month start end') (personal_expenses st).
               fin_val (opt_or_zero (pe_approved_amount p))))
   \<and> (finite_ledger st \<and> e \<in> set (expense_entries st) \<and> in_month start end' (ee_date e)
        \<and> ee_actual_amount e = Some (Fin a) \<and> p \<in> set (personal_expenses st)
        \<and> approved_in_month start end' p \<and> pe_approved_amount p = Some (Fin a) \<longrightarrow>
      monthTotalExpenses (computeMonthlyTotals st start end') =
        Fin (a + a
           + (\<Sum>e'\<leftarrow>filter (\<lambda>e. in_month start end' (ee_date e)) (remove1 e (expense_entries st)).
               fin_val (opt_or_zero (ee_actual_amount e')))
           + (\<Sum>p'\<leftarrow>filter (approved_in_month start end') (remove1 p (personal_expenses st)).
               fin_val (opt_or_zero (pe_approved_amount p')))))
   \<and> (decide env st actor (ObjectId rid) body = (Inr resp, st')
        \<and> r_message resp = MsgApprovedFinal v
        \<and> findById (personal_expenses st) rid = Some pe
        \<and> find (tagged_with rid) (expense_entries st) = None \<and> storable pe \<longrightarrow>
      materialized_entry env actor (r_item resp) v \<in> set (expense_entries st')
        \<and> ee_date (materialized_entry env actor (r_item resp) v) = now env
        \<and> ee_actual_amount (materialized_entry env actor (r_item resp) v) = Some v
        \<and> r_item resp \<in> set (personal_expenses st')
        \<and> pe_status (r_item resp) = Approved
        \<and> pe_approved_at (r_item resp) = Some (now env)
        \<and> pe_approved_amount (r_item resp) = Some v)
   \<and> (personal_derived e \<longrightarrow>
      totalGlobalExpenses (remaining_report (st\<lparr>expense_entries := remove1 e (expense_entries st)\<rparr>) start end')
        = totalGlobalExpenses (remaining_report st start end'))"
proof -
  have A: "finite_ledger st \<longrightarrow>
      expenseTotalFromEntries (computeMonthlyTotals st start end') =
        Fin (\<Sum>e\<leftarrow>filter (\<lambda>e. in_month start end' (ee_date e)) (expense_entries st).
               fin_val (opt_or_zero (ee_actual_amount e)))
      \<and> expenseTotalFromPersonal (computeMonthlyTotals st start end') =
        Fin (\<Sum>p\<leftarrow>filter (approved_in_month start end') (personal_expenses st).
               fin_val (opt_or_zero (pe_approved_amount p)))"
    using monthly_finite(2,3)[of st start end'] by simp
  have B: "finite_ledger st \<and> e \<in> set (expense_entries st) \<and> in_month start end' (ee_date e)
        \<and> ee_actual_amount e = Some (Fin a) \<and> p \<in> set (personal_expenses st)
        \<and> approved_in_month start end' p \<and> pe_approved_amount p = Some (Fin a) \<longrightarrow>
      monthTotalExpenses (computeMonthlyTotals st start end') =
        Fin (a + a
           + (\<Sum>e'\<leftarrow>filter (\<lambda>e. in_month start end' (ee_date e)) (remove1 e (expense_entries st)).
               fin_val (opt_or_zero (ee_actual_amount e')))
           + (\<Sum>p'\<leftarrow>filter (approved_in_month start end') (remove1 p (personal_expenses st)).
               fin_val (opt_or_zero (pe_approved_amount p'))))"
    by (intro impI monthly_counts_twice) simp_all
  have C: "decide env st actor (ObjectId rid) body = (Inr resp, st')
        \<and> r_message resp = MsgApprovedFinal v
        \<and> findById (personal_expenses st) rid = Some pe
        \<and> find (tagged_with rid) (expense_entries st) = None \<and> storable pe \<longrightarrow>
      materialized_entry env actor (r_item resp) v \<in> set (expense_entries st')
        \<and> ee_date (materialized_entry env actor (r_item resp) v) = now env
        \<and> ee_actual_amount (materialized_entry env actor (r_item resp) v) = Some v
        \<and> r_item resp \<in> set (personal_expenses st')
        \<and> pe_status (r_item resp) = Approved
        \<and> pe_approved_at (r_item resp) = Some (now env)
        \<and> pe_approved_amount (r_item resp) = Some v"
    by (intro impI decide_final_ledger[of env st actor rid body resp st' v pe]) simp_all
  have D: "personal_derived e \<longrightarrow>
      totalGlobalExpenses (remaining_report (st\<lparr>expense_entries := remove1 e (expense_entries st)\<rparr>) start end')
        = totalGlobalExpenses (remaining_report st start end')"
    by (intro impI remaining_excludes)
  show ?thesis by (intro conjI A B C D)
qed


theorem C9_monthly_double_count_witness:
  "finite_ledger ex_ledger
   \<and> materialized_entry ex_env ex_adminB ex_approved (Fin 300) \<in> set (expense_entries ex_ledger)
   \<and> in_month 0 100 (ee_date (materialized_entry ex_env ex_adminB ex_approved (Fin 300)))
   \<and> ex_approved \<in> set (personal_expenses ex_ledger) \<and> approved_in_month 0 100 ex_approved
   \<and> pe_approved_amount ex_approved = Some (Fin 300)
   \<and> personal_derived (materialized_entry ex_env ex_adminB ex_approved (Fin 300))
   \<and> expenseTotalFromEntries (computeMonthlyTotals ex_ledger 0 100) = Fin 300
   \<and> expenseTotalFromPersonal (computeMonthlyTotals ex_ledger 0 100) = Fin 300
   \<and> monthTotalExpenses (computeMonthlyTotals ex_ledger 0 100) = Fin 600
   \<and> totalGlobalExpenses (remaining_report ex_ledger 0 100)
        = totalGlobalExpenses (remaining_report (ex_ledger\<lparr>expense_entries := []\<rparr>) 0 100)
   \<and> find (tagged_with 1) (expense_entries ex_state_voted) = None \<and> storable ex_request
   \<and> (\<exists>resp st'.
        decide ex_env ex_state_voted ex_adminB (ObjectId 1) (approve_body (Fin 101)) = (Inr resp, st')
        \<and> r_message resp = MsgApprovedFinal (Fin 101)
        \<and> materialized_entry ex_env ex_adminB (r_item resp) (Fin 101) \<in> set (expense_entries st')
        \<and> ee_date (materialized_entry ex_env ex_adminB (r_item resp) (Fin 101)) = 1000
        \<and> ee_actual_amount (materialized_entry ex_env ex_adminB (r_item resp) (Fin 101)) = Some (Fin 101)
        \<and> r_item resp \<in> set (personal_expenses st')
        \<and> pe_status (r_item resp) = Approved
        \<and> pe_approved_at (r_item resp) = Some 1000
        \<and> pe_approved_amount (r_item resp) = Some (Fin 101))"
proof -
  let ?e = "materialized_entry ex_env ex_adminB ex_approved (Fin 300)"
  obtain resp st' where d:
    "decide ex_env ex_state_voted ex_adminB (ObjectId 1) (approve_body (Fin 101)) = (Inr resp, st')"
    and m: "r_message resp = MsgApprovedFinal (Fin 101)"
    using ex_decide_final by blast
  note T = C9_monthly_double_count[where st=ex_ledger and start=0 and end'=100
      and e="materialized_entry ex_env ex_adminB ex_approved (Fin 300)" and a=300 and p=ex_approved]
  note U = C9_monthly_double_count[where st=ex_state_voted and env=ex_env and actor=ex_adminB
      and rid=1 and body="approve_body (Fin 101)" and resp=resp and st'=st' and v="Fin 101"
      and pe=ex_request]
  have fl: "finite_ledger ex_ledger" by (rule ex_ledger_finite)
  have ein: "?e \<in> set (expense_entries ex_ledger)" by (simp add: ex_ledger_def)
  have ed: "in_month 0 100 (ee_date ?e)"
    by (simp add: in_month_def materialized_entry_def ex_approved_def)
  have ea: "ee_actual_amount ?e = Some (Fin 300)" by (simp add: materialized_entry_def)
  have pin: "ex_approved \<in> set (personal_expenses ex_ledger)" by (simp add: ex_ledger_def)
  have pm: "approved_in_month 0 100 ex_approved"
    by (simp add: approved_in_month_def ex_approved_def)
  have pa: "pe_approved_amount ex_approved = Some (Fin 300)" by (simp add: ex_approved_def)
  have pd: "personal_derived ?e" by (rule materialized_personal_derived)
  have 1: "expenseTotalFromEntries (computeMonthlyTotals ex_ledger 0 100) = Fin 300"
    using T fl ed ea by (simp add: ex_ledger_def opt_or_zero_def fin_val_def)
  have 2: "expenseTotalFromPersonal (computeMonthlyTotals ex_ledger 0 100) = Fin 300"
    using T fl pm pa by (simp add: ex_ledger_def opt_or_zero_def fin_val_def)
  have 3: "monthTotalExpenses (computeMonthlyTotals ex_ledger 0 100) = Fin 600"
    using T fl ein ed ea pin pm pa by (simp add: ex_ledger_def)
  have 4: "totalGlobalExpenses (remaining_report ex_ledger 0 100)
        = totalGlobalExpenses (remaining_report (ex_ledger\<lparr>expense_entries := []\<rparr>) 0 100)"
    using T pd by (simp add: ex_ledger_def)
  have n: "find (tagged_with 1) (expense_entries ex_state_voted) = None"
    by (simp add: ex_state_voted_def ex_state_def)
  have s: "storable ex_request" by (simp add: storable_def ex_request_def castable_def)
  have f: "findById (personal_expenses ex_state_voted) 1 = Some ex_request"
    by (simp add: ex_state_voted_def ex_state_def findById_def ex_request_def)
  have nw: "now ex_env = 1000" by (simp add: ex_env_def)
  from U d m f n s have 5:
    "materialized_entry ex_env ex_adminB (r_item resp) (Fin 101) \<in> set (expense_entries st')
        \<and> ee_date (materialized_entry ex_env ex_adminB (r_item resp) (Fin 101)) = now ex_env
        \<and> ee_actual_amount (materialized_entry ex_env ex_adminB (r_item resp) (Fin 101)) = Some (Fin 101)
        \<and> r_item resp \<in> set (personal_expenses st')
        \<and> pe_status (r_item resp) = Approved
        \<and> pe_approved_at (r_item resp) = Some (now ex_env)
        \<and> pe_approved_amount (r_item resp) = Some (Fin 101)"
    by simp
  show ?thesis
    using fl ein ed pin pm pa pd 1 2 3 4 n s d m 5[unfolded nw]
    by (intro conjI exI[of _ resp] exI[of _ st']) simp_all
qed


section \<open>The audit recorder\<close>

lemma audit_down_fields [simp]:
  "now (audit_down env) = now env" "new_id (audit_down env) = new_id env"
  "notify_ok (audit_down env) = notify_ok env" "audit_ok (audit_down env) a = False"
  by (simp_all add: audit_down_def)

lemma audit_down_eq: "same_but_audit env env' \<Longrightarrow> audit_down env = audit_down env'"
  by (cases env; cases env') (simp add: same_but_audit_def audit_down_def)

lemma without_audit_fields [simp]:
  "users (without_audit st) = users st"
  "personal_expenses (without_audit st) = personal_expenses st"
  "approvals (without_audit st) = approvals st"
  "expense_entries (without_audit st) = expense_entries st"
  "income_entries (without_audit st) = income_entries st"
  "notifications (without_audit st) = notifications st"
  "audit_logs (without_audit st) = []"
  by (simp_all add: without_audit_def)

lemma without_audit_idem [simp]: "without_audit (without_audit st) = without_audit st"
  by (simp add: without_audit_def)

lemma without_audit_update [simp]:
  "without_audit (st\<lparr>approvals := x\<rparr>) = (without_audit st)\<lparr>approvals := x\<rparr>"
  "without_audit (st\<lparr>personal_expenses := y\<rparr>) = (without_audit st)\<lparr>personal_expenses := y\<rparr>"
  "without_audit (st\<lparr>expense_entries := z\<rparr>) = (without_audit st)\<lparr>expense_entries := z\<rparr>"
  "without_audit (st\<lparr>notifications := w\<rparr>) = (without_audit st)\<lparr>notifications := w\<rparr>"
  by (simp_all add: without_audit_def)

lemma createAudit_down [simp]:
  "createAudit (audit_down env) st a b c d = st"
  "without_audit (createAudit env st a b c d) = without_audit st"
  by (simp_all add: createAudit_def without_audit_def Let_def)

lemma notify_down [simp]:
  "without_audit (notify env st u t) = notify (audit_down env) (without_audit st) u t"
  by (simp add: notify_def Let_def)

lemma save_fst_eq:
  "fst (PersonalExpense_save env st old new) = (if new = old then new else new\<lparr>pe_updatedAt := now env\<rparr>)"
  by (simp add: PersonalExpense_save_def Let_def)

lemma save_down [simp]:
  "without_audit (snd (PersonalExpense_save env st old new))
     = snd (PersonalExpense_save (audit_down env) (without_audit st) old new)"
  by (simp add: PersonalExpense_save_def Let_def)

lemma materialized_entry_down [simp]:
  "materialized_entry (audit_down env) actor pe v = materialized_entry env actor pe v"
  by (simp add: materialized_entry_def cong: option.case_cong)

lemma materialize_down:
  "without_audit (materialize env st actor pe v) = materialize (audit_down env) (without_audit st) actor pe v"
  by (simp add: materialize_def Let_def split: option.splits)


lemma sim_fields:
  assumes "without_audit s = without_audit t"
  shows "users s = users t" "personal_expenses s = personal_expenses t" "approvals s = approvals t"
    "expense_entries s = expense_entries t" "income_entries s = income_entries t"
    "notifications s = notifications t"
proof -
  have "users (without_audit s) = users (without_audit t)"
    "personal_expenses (without_audit s) = personal_expenses (without_audit t)"
    "approvals (without_audit s) = approvals (without_audit t)"
    "expense_entries (without_audit s) = expense_entries (without_audit t)"
    "income_entries (without_audit s) = income_entries (without_audit t)"
    "notifications (without_audit s) = notifications (without_audit t)"
    using assms by simp_all
  then show "users s = users t" "personal_expenses s = personal_expenses t" "approvals s = approvals t"
    "expense_entries s = expense_entries t" "income_entries s = income_entries t"
    "notifications s = notifications t"
    by simp_all
qed

lemma save_equiv:
  assumes "same_but_audit env env'" "without_audit s = without_audit t"
  shows "audit_equiv (PersonalExpense_save env s old new) (PersonalExpense_save env' t old new)"
  using assms audit_down_eq[OF assms(1)]
  by (simp add: audit_equiv_def save_fst_eq same_but_audit_def)


lemma audit_equivI:
  "fst r = fst r' \<Longrightarrow> without_audit (snd r) = without_audit (snd r') \<Longrightarrow> audit_equiv r r'"
  by (simp add: audit_equiv_def)

lemma notify_equiv:
  assumes "same_but_audit env env'" "without_audit s = without_audit t"
  shows "without_audit (notify env s u ti) = without_audit (notify env' t u ti)"
  using assms(2) audit_down_eq[OF assms(1)] by (simp only: notify_down)

lemma reject_final_unfold:
  "reject_final env st actor pe row =
     (Inr \<lparr>r_item = fst (PersonalExpense_save env st pe
                          (pe\<lparr>pe_status := Rejected,
                              approvals_count := length (approve_rows st (pe_id pe))\<rparr>)),
           r_approval = row, r_message = MsgRejected\<rparr>,
      createAudit env
        (notify env
          (createAudit env
             (snd (PersonalExpense_save env st pe
                     (pe\<lparr>pe_status := Rejected,
                         approvals_count := length (approve_rows st (pe_id pe))\<rparr>)))
             ''personal_expense'' (pe_id pe) ''rejected_final'' (Some (u_id actor)))
          (pe_user pe) ''Your personal expense request was rejected'')
        ''notification'' (pe_id pe) ''notify_owner_rejected'' (Some (u_id actor)))"
  by (simp add: reject_final_def Let_def case_prod_beta)

lemma reject_final_equiv:
  assumes e: "same_but_audit env env'" and s: "without_audit s = without_audit t"
  shows "audit_equiv (reject_final env s actor pe row) (reject_final env' t actor pe row)"
proof -
  have rows: "approve_rows s (pe_id pe) = approve_rows t (pe_id pe)"
    using sim_fields(3)[OF s] by (simp add: approve_rows_def)
  let ?new = "pe\<lparr>pe_status := Rejected, approvals_count := length (approve_rows t (pe_id pe))\<rparr>"
  have sv: "audit_equiv (PersonalExpense_save env s pe ?new) (PersonalExpense_save env' t pe ?new)"
    using e s by (rule save_equiv)
  then have f: "fst (PersonalExpense_save env s pe ?new) = fst (PersonalExpense_save env' t pe ?new)"
    and n: "without_audit (snd (PersonalExpense_save env s pe ?new))
          = without_audit (snd (PersonalExpense_save env' t pe ?new))"
    by (simp_all add: audit_equiv_def)
  have n1: "without_audit (createAudit env (snd (PersonalExpense_save env s pe ?new)) a b c d)
      = without_audit (createAudit env' (snd (PersonalExpense_save env' t pe ?new)) a b c d)"
    for a b c d
    using n by (simp only: createAudit_down)
  have n2: "without_audit (notify env (createAudit env (snd (PersonalExpense_save env s pe ?new)) a b c d) u ti)
      = without_audit (notify env' (createAudit env' (snd (PersonalExpense_save env' t pe ?new)) a b c d) u ti)"
    for a b c d u ti
    using e n1 by (rule notify_equiv)
  show ?thesis
    unfolding reject_final_unfold[of env s] reject_final_unfold[of env' t] rows
    by (rule audit_equivI) (simp_all only: fst_conv snd_conv f createAudit_down n2)
qed


lemma materialize_equiv:
  assumes "same_but_audit env env'" "without_audit s = without_audit t"
  shows "without_audit (materialize env s actor pe v) = without_audit (materialize env' t actor pe v)"
  using assms(2) audit_down_eq[OF assms(1)] by (simp only: materialize_down)

lemma finalize_unfold:
  "finalize env st actor pe row rows =
     (if \<not> castable (finalApprovedAmount (providedAmounts rows) pe) then (Inl ServerError, st)
      else
        (Inr \<lparr>r_item = fst (PersonalExpense_save env st pe
                 (pe\<lparr>pe_status := Approved,
                     pe_approved_amount := Some (finalApprovedAmount (providedAmounts rows) pe),
                     pe_approved_at := Some (now env), approvals_count := length rows\<rparr>)),
              r_approval = row,
              r_message = MsgApprovedFinal (finalApprovedAmount (providedAmounts rows) pe)\<rparr>,
         materialize env
           (createAudit env
             (notify env
               (createAudit env
                  (snd (PersonalExpense_save env st pe
                     (pe\<lparr>pe_status := Approved,
                         pe_approved_amount := Some (finalApprovedAmount (providedAmounts rows) pe),
                         pe_approved_at := Some (now env), approvals_count := length rows\<rparr>)))
                  ''personal_expense'' (pe_id pe) ''approved_final'' (Some (u_id actor)))
               (pe_user pe) ''Your personal expense request was approved'')
             ''notification'' (pe_id pe) ''notify_owner_approved'' (Some (u_id actor)))
           actor
           (fst (PersonalExpense_save env st pe
                 (pe\<lparr>pe_status := Approved,
                     pe_approved_amount := Some (finalApprovedAmount (providedAmounts rows) pe),
                     pe_approved_at := Some (now env), approvals_count := length rows\<rparr>)))
           (finalApprovedAmount (providedAmounts rows) pe)))"
  by (simp add: finalize_def Let_def case_prod_beta)

lemma finalize_equiv:
  assumes e: "same_but_audit env env'" and s: "without_audit s = without_audit t"
  shows "audit_equiv (finalize env s actor pe row rows) (finalize env' t actor pe row rows)"
proof (cases "castable (finalApprovedAmount (providedAmounts rows) pe)")
  case False
  then show ?thesis using s by (simp add: finalize_unfold audit_equiv_def)
next
  case True
  have nw: "now env = now env'" using e by (simp add: same_but_audit_def)
  let ?v = "finalApprovedAmount (providedAmounts rows) pe"
  let ?new = "pe\<lparr>pe_status := Approved, pe_approved_amount := Some ?v,
                  pe_approved_at := Some (now env'), approvals_count := length rows\<rparr>"
  have sv: "audit_equiv (PersonalExpense_save env s pe ?new) (PersonalExpense_save env' t pe ?new)"
    using e s by (rule save_equiv)
  then have f: "fst (PersonalExpense_save env s pe ?new) = fst (PersonalExpense_save env' t pe ?new)"
    and n: "without_audit (snd (PersonalExpense_save env s pe ?new))
          = without_audit (snd (PersonalExpense_save env' t pe ?new))"
    by (simp_all add: audit_equiv_def)
  have n1: "without_audit (createAudit env (snd (PersonalExpense_save env s pe ?new)) a b c d)
      = without_audit (createAudit env' (snd (PersonalExpense_save env' t pe ?new)) a b c d)"
    for a b c d
    using n by (simp only: createAudit_down)
  have n2: "without_audit (notify env (createAudit env (snd (PersonalExpense_save env s pe ?new)) a b c d) u ti)
      = without_audit (notify env' (createAudit env' (snd (PersonalExpense_save env' t pe ?new)) a b c d) u ti)"
    for a b c d u ti
    using e n1 by (rule notify_equiv)
  have n3: "without_audit (createAudit env (notify env (createAudit env (snd (PersonalExpense_save env s pe ?new)) a b c d) u ti) a' b' c' d')
      = without_audit (createAudit env' (notify env' (createAudit env' (snd (PersonalExpense_save env' t pe ?new)) a b c d) u ti) a' b' c' d')"
    for a b c d u ti a' b' c' d'
    using n2 by (simp only: createAudit_down)
  have n4: "without_audit (materialize env (createAudit env (notify env (createAudit env (snd (PersonalExpense_save env s pe ?new)) a b c d) u ti) a' b' c' d') actor p v)
      = without_audit (materialize env' (createAudit env' (notify env' (createAudit env' (snd (PersonalExpense_save env' t pe ?new)) a b c d) u ti) a' b' c' d') actor p v)"
    for a b c d u ti a' b' c' d' p v
    using e n3 by (rule materialize_equiv)
  show ?thesis
    unfolding finalize_unfold[of env s] finalize_unfold[of env' t] nw
    using True by (intro audit_equivI) (simp_all only: if_False if_True not_True_eq_False fst_conv snd_conv f n4)
qed


lemma approve_step_unfold:
  "approve_step env st actor pe row =
     (if required_admins pe \<le> length (uniqueApprovers st (approve_rows st (pe_id pe)))
      then finalize env
             (snd (PersonalExpense_save env st pe (pe\<lparr>approvals_count := length (approve_rows st (pe_id pe))\<rparr>)))
             actor
             (fst (PersonalExpense_save env st pe (pe\<lparr>approvals_count := length (approve_rows st (pe_id pe))\<rparr>)))
             row (approve_rows st (pe_id pe))
      else (Inr \<lparr>r_item = fst (PersonalExpense_save env st pe
                                (pe\<lparr>approvals_count := length (approve_rows st (pe_id pe))\<rparr>)),
                 r_approval = row,
                 r_message = MsgStillPending (length (uniqueApprovers st (approve_rows st (pe_id pe))))
                               (required_admins_count pe)\<rparr>,
            snd (PersonalExpense_save env st pe (pe\<lparr>approvals_count := length (approve_rows st (pe_id pe))\<rparr>))))"
  by (simp add: approve_step_def Let_def case_prod_beta save_fst_fields required_admins_def)

lemma approve_step_equiv:
  assumes e: "same_but_audit env env'" and s: "without_audit s = without_audit t"
  shows "audit_equiv (approve_step env s actor pe row) (approve_step env' t actor pe row)"
proof -
  have rows: "approve_rows s (pe_id pe) = approve_rows t (pe_id pe)"
    using sim_fields(3)[OF s] by (simp add: approve_rows_def)
  have ua: "uniqueApprovers s (approve_rows t (pe_id pe)) = uniqueApprovers t (approve_rows t (pe_id pe))"
    using sim_fields(1)[OF s] by (simp add: uniqueApprovers_def)
  let ?new = "pe\<lparr>approvals_count := length (approve_rows t (pe_id pe))\<rparr>"
  have sv: "audit_equiv (PersonalExpense_save env s pe ?new) (PersonalExpense_save env' t pe ?new)"
    using e s by (rule save_equiv)
  then have f: "fst (PersonalExpense_save env s pe ?new) = fst (PersonalExpense_save env' t pe ?new)"
    and n: "without_audit (snd (PersonalExpense_save env s pe ?new))
          = without_audit (snd (PersonalExpense_save env' t pe ?new))"
    by (simp_all add: audit_equiv_def)
  have fz: "audit_equiv
      (finalize env (snd (PersonalExpense_save env s pe ?new)) actor
         (fst (PersonalExpense_save env' t pe ?new)) row (approve_rows t (pe_id pe)))
      (finalize env' (snd (PersonalExpense_save env' t pe ?new)) actor
         (fst (PersonalExpense_save env' t pe ?new)) row (approve_rows t (pe_id pe)))"
    using e n by (rule finalize_equiv)
  show ?thesis
    unfolding approve_step_unfold[of env s] approve_step_unfold[of env' t] rows ua f
    using fz n by (simp add: audit_equiv_def)
qed

lemma decide_early_eq:
  assumes "personal_expenses s = personal_expenses t"
    and "\<not> (\<exists>rid pe d. idp = ObjectId rid \<and> permit [AdminA, AdminB] actor
            \<and> findById (personal_expenses s) rid = Some pe \<and> pe_status pe = Pending
            \<and> parse_decision (b_decision body) = Some d
            \<and> (d = Approve \<longrightarrow> \<not> approved_amount_rejected (b_approved_amount body))
            \<and> castable_opt (normalized_amount (b_approved_amount body)))"
  shows "\<exists>e. decide env s actor idp body = (Inl e, s) \<and> decide env' t actor idp body = (Inl e, t)"
proof (cases "permit [AdminA, AdminB] actor")
  case False
  then show ?thesis by (simp add: decide_def)
next
  case adm: True
  show ?thesis
  proof (cases idp)
    case MalformedId
    then show ?thesis using adm by (simp add: decide_def)
  next
    case (ObjectId rid)
    show ?thesis
    proof (cases "parse_decision (b_decision body)")
      case None
      then show ?thesis using adm ObjectId by (simp add: decide_def)
    next
      case (Some d)
      note d = this
      show ?thesis
      proof (cases "d = Approve \<and> approved_amount_rejected (b_approved_amount body)")
        case True
        then show ?thesis using adm ObjectId d by (simp add: decide_def)
      next
        case ok: False
        show ?thesis
        proof (cases "findById (personal_expenses s) rid")
          case None
          then show ?thesis using adm ObjectId d ok assms(1) by (simp add: decide_def)
        next
          case (Some pe)
          then have "pe_status pe \<noteq> Pending \<or> \<not> castable_opt (normalized_amount (b_approved_amount body))"
            using assms(2) adm ObjectId d ok by auto
          then show ?thesis using adm ObjectId d ok Some assms(1) by (auto simp: decide_def)
        qed
      qed
    qed
  qed
qed

lemma decide_equiv:
  assumes e: "same_but_audit env env'" and s: "without_audit s = without_audit t"
  shows "audit_equiv (decide env s actor idp body) (decide env' t actor idp body)"
proof (cases "\<exists>rid pe d. idp = ObjectId rid \<and> permit [AdminA, AdminB] actor
            \<and> findById (personal_expenses s) rid = Some pe \<and> pe_status pe = Pending
            \<and> parse_decision (b_decision body) = Some d
            \<and> (d = Approve \<longrightarrow> \<not> approved_amount_rejected (b_approved_amount body))
            \<and> castable_opt (normalized_amount (b_approved_amount body))")
  case False
  have pes: "personal_expenses s = personal_expenses t" using sim_fields(2)[OF s] .
  from decide_early_eq[OF pes False, of env env'] obtain err where
    "decide env s actor idp body = (Inl err, s)" "decide env' t actor idp body = (Inl err, t)"
    by blast
  then show ?thesis using s by (simp add: audit_equiv_def)
next
  case True
  then obtain rid pe d where rec: "idp = ObjectId rid" "permit [AdminA, AdminB] actor"
    "findById (personal_expenses s) rid = Some pe" "pe_status pe = Pending"
    "parse_decision (b_decision body) = Some d"
    "d = Approve \<longrightarrow> \<not> approved_amount_rejected (b_approved_amount body)"
    "castable_opt (normalized_amount (b_approved_amount body))"
    by blast
  have nw: "now env = now env'" using e by (simp add: same_but_audit_def)
  have pes: "personal_expenses s = personal_expenses t" and aps: "approvals s = approvals t"
    using sim_fields(2,3)[OF s] by simp_all
  have ft: "findById (personal_expenses t) rid = Some pe" using rec(3) pes by simp
  have ds: "decide env s actor (ObjectId rid) body =
          (if d = Reject
           then reject_final env (recorded env s actor rid body d) actor pe (recorded_row env s actor rid body d)
           else approve_step env (recorded env s actor rid body d) actor pe (recorded_row env s actor rid body d))"
    using decide_recorded[OF rec(2,3,4,5,6,7), of env] .
  have dt: "decide env' t actor (ObjectId rid) body =
          (if d = Reject
           then reject_final env' (recorded env' t actor rid body d) actor pe (recorded_row env' t actor rid body d)
           else approve_step env' (recorded env' t actor rid body d) actor pe (recorded_row env' t actor rid body d))"
    using decide_recorded[OF rec(2) ft rec(4,5,6,7), of env'] .
  have row: "recorded_row env s actor rid body d = recorded_row env' t actor rid body d"
    using nw aps by (simp add: recorded_row_def)
  have "without_audit (s\<lparr>approvals := x\<rparr>) = without_audit (t\<lparr>approvals := x\<rparr>)" for x
    using s by (simp only: without_audit_update)
  then have st: "without_audit (recorded env s actor rid body d) = without_audit (recorded env' t actor rid body d)"
    unfolding recorded_def nw aps by (simp only: createAudit_down)
  show ?thesis
    unfolding rec(1) ds dt row
    using reject_final_equiv[OF e st] approve_step_equiv[OF e st] by (cases "d = Reject") simp_all
qed


lemma edit_unfold:
  assumes "findById (personal_expenses st) rid = Some pe" "pe_user pe = u_id actor"
    "pe_status pe = Draft" "edit_body_ok body"
  shows "edit env st actor (ObjectId rid) body =
     (Inr (findById (personal_expenses (snd (PersonalExpense_save env st pe (apply_updatable body pe))))
             (pe_id (fst (PersonalExpense_save env st pe (apply_updatable body pe))))),
      createAudit env (snd (PersonalExpense_save env st pe (apply_updatable body pe)))
        ''personal_expense'' (pe_id pe) ''update'' (Some (u_id actor)))"
  using assms by (simp add: edit_def Let_def case_prod_beta)

lemma edit_early_eq:
  assumes "personal_expenses s = personal_expenses t"
    and "\<not> (\<exists>rid pe. idp = ObjectId rid \<and> findById (personal_expenses s) rid = Some pe
            \<and> pe_user pe = u_id actor \<and> pe_status pe = Draft \<and> edit_body_ok body)"
  shows "\<exists>e. edit env s actor idp body = (Inl e, s) \<and> edit env' t actor idp body = (Inl e, t)"
  using assms by (auto simp: edit_def split: id_param.splits option.splits)

lemma edit_equiv:
  assumes e: "same_but_audit env env'" and s: "without_audit s = without_audit t"
  shows "audit_equiv (edit env s actor idp body) (edit env' t actor idp body)"
proof (cases "\<exists>rid pe. idp = ObjectId rid \<and> findById (personal_expenses s) rid = Some pe
            \<and> pe_user pe = u_id actor \<and> pe_status pe = Draft \<and> edit_body_ok body")
  case False
  have pes: "personal_expenses s = personal_expenses t" using sim_fields(2)[OF s] .
  from edit_early_eq[OF pes False, of env env'] obtain err where
    "edit env s actor idp body = (Inl err, s)" "edit env' t actor idp body = (Inl err, t)"
    by blast
  then show ?thesis using s by (simp add: audit_equiv_def)
next
  case True
  then obtain rid pe where g: "idp = ObjectId rid" "findById (personal_expenses s) rid = Some pe"
    "pe_user pe = u_id actor" "pe_status pe = Draft" "edit_body_ok body" by blast
  have pes: "personal_expenses s = personal_expenses t" using sim_fields(2)[OF s] .
  have gt: "findById (personal_expenses t) rid = Some pe" using g(2) pes by simp
  let ?new = "apply_updatable body pe"
  have sv: "audit_equiv (PersonalExpense_save env s pe ?new) (PersonalExpense_save env' t pe ?new)"
    using e s by (rule save_equiv)
  then have f: "fst (PersonalExpense_save env s pe ?new) = fst (PersonalExpense_save env' t pe ?new)"
    and n: "without_audit (snd (PersonalExpense_save env s pe ?new))
          = without_audit (snd (PersonalExpense_save env' t pe ?new))"
    by (simp_all add: audit_equiv_def)
  have p: "personal_expenses (snd (PersonalExpense_save env s pe ?new))
         = personal_expenses (snd (PersonalExpense_save env' t pe ?new))"
    using sim_fields(2)[OF n] .
  show ?thesis
    unfolding g(1) edit_unfold[OF g(2-5)] edit_unfold[OF gt g(3-5)]
    by (rule audit_equivI) (simp_all only: fst_conv snd_conv f p createAudit_down n)
qed

lemma cancel_unfold:
  assumes "findById (personal_expenses st) rid = Some pe" "pe_user pe = u_id actor"
    "pe_status pe \<notin> {Approved, Rejected, Cancelled}"
  shows "cancel env st actor (ObjectId rid) =
     (Inr (fst (PersonalExpense_save env st pe (pe\<lparr>pe_status := Cancelled\<rparr>))),
      createAudit env (snd (PersonalExpense_save env st pe (pe\<lparr>pe_status := Cancelled\<rparr>)))
        ''personal_expense'' (pe_id pe) ''cancelled'' (Some (u_id actor)))"
  using assms by (simp add: cancel_def Let_def case_prod_beta)

lemma cancel_early_eq:
  assumes "personal_expenses s = personal_expenses t"
    and "\<not> (\<exists>rid pe. idp = ObjectId rid \<and> findById (personal_expenses s) rid = Some pe
            \<and> pe_user pe = u_id actor \<and> pe_status pe \<notin> {Approved, Rejected, Cancelled})"
  shows "\<exists>e. cancel env s actor idp = (Inl e, s) \<and> cancel env' t actor idp = (Inl e, t)"
  using assms by (auto simp: cancel_def split: id_param.splits option.splits)

lemma cancel_equiv:
  assumes e: "same_but_audit env env'" and s: "without_audit s = without_audit t"
  shows "audit_equiv (cancel env s actor idp) (cancel env' t actor idp)"
proof (cases "\<exists>rid pe. idp = ObjectId rid \<and> findById (personal_expenses s) rid = Some pe
            \<and> pe_user pe = u_id actor \<and> pe_status pe \<notin> {Approved, Rejected, Cancelled}")
  case False
  have pes: "personal_expenses s = personal_expenses t" using sim_fields(2)[OF s] .
  from cancel_early_eq[OF pes False, of env env'] obtain err where
    "cancel env s actor idp = (Inl err, s)" "cancel env' t actor idp = (Inl err, t)"
    by blast
  then show ?thesis using s by (simp add: audit_equiv_def)
next
  case True
  then obtain rid pe where g: "idp = ObjectId rid" "findById (personal_expenses s) rid = Some pe"
    "pe_user pe = u_id actor" "pe_status pe \<notin> {Approved, Rejected, Cancelled}" by blast
  have pes: "personal_expenses s = personal_expenses t" using sim_fields(2)[OF s] .
  have gt: "findById (personal_expenses t) rid = Some pe" using g(2) pes by simp
  let ?new = "pe\<lparr>pe_status := Cancelled\<rparr>"
  have sv: "audit_equiv (PersonalExpense_save env s pe ?new) (PersonalExpense_save env' t pe ?new)"
    using e s by (rule save_equiv)
  then have f: "fst (PersonalExpense_save env s pe ?new) = fst (PersonalExpense_save env' t pe ?new)"
    and n: "without_audit (snd (PersonalExpense_save env s pe ?new))
          = without_audit (snd (PersonalExpense_save env' t pe ?new))"
    by (simp_all add: audit_equiv_def)
  show ?thesis
    unfolding g(1) cancel_unfold[OF g(2-4)] cancel_unfold[OF gt g(3-4)]
    by (rule audit_equivI) (simp_all only: fst_conv snd_conv f createAudit_down n)
qed


lemma notify_admins_equiv:
  assumes e: "same_but_audit env env'"
  shows "without_audit s = without_audit t \<Longrightarrow>
         without_audit (notify_admins env actor pe s admins)
           = without_audit (notify_admins env' actor pe t admins)"
proof (induction admins arbitrary: s t)
  case Nil
  then show ?case by (simp add: notify_admins_def)
next
  case (Cons a admins)
  let ?s1 = "createAudit env (notify env s (u_id a) ''New personal expense pending approval'')
               ''notification'' (pe_id pe) ''notify_admin_new_pending'' (Some (u_id actor))"
  let ?t1 = "createAudit env' (notify env' t (u_id a) ''New personal expense pending approval'')
               ''notification'' (pe_id pe) ''notify_admin_new_pending'' (Some (u_id actor))"
  have "without_audit (notify env s (u_id a) ''New personal expense pending approval'')
      = without_audit (notify env' t (u_id a) ''New personal expense pending approval'')"
    using e Cons.prems by (rule notify_equiv)
  then have "without_audit ?s1 = without_audit ?t1" by (simp only: createAudit_down)
  then have "without_audit (notify_admins env actor pe ?s1 admins)
      = without_audit (notify_admins env' actor pe ?t1 admins)"
    by (rule Cons.IH)
  then show ?case by (simp add: notify_admins_def)
qed

lemma notify_admins_pes [simp]:
  "personal_expenses (notify_admins env actor pe st admins) = personal_expenses st"
  by (induction admins arbitrary: st) (simp_all add: notify_admins_def)

lemma submit_unfold:
  assumes "findById (personal_expenses st) rid = Some pe" "pe_user pe = u_id actor"
    "pe_status pe = Draft"
  shows "submit env st actor (ObjectId rid) =
     (Inr (findById (personal_expenses (snd (PersonalExpense_save env st pe (pe\<lparr>pe_status := Pending\<rparr>))))
             (pe_id (fst (PersonalExpense_save env st pe (pe\<lparr>pe_status := Pending\<rparr>))))),
      notify_admins env actor (fst (PersonalExpense_save env st pe (pe\<lparr>pe_status := Pending\<rparr>)))
        (createAudit env (snd (PersonalExpense_save env st pe (pe\<lparr>pe_status := Pending\<rparr>)))
           ''personal_expense'' (pe_id pe) ''submit'' (Some (u_id actor)))
        (filter (\<lambda>u. u_role u \<in> {AdminA, AdminB}) (users st)))"
  using assms by (simp add: submit_def Let_def case_prod_beta)

lemma submit_early_eq:
  assumes "personal_expenses s = personal_expenses t"
    and "\<not> (\<exists>rid pe. idp = ObjectId rid \<and> findById (personal_expenses s) rid = Some pe
            \<and> pe_user pe = u_id actor \<and> pe_status pe = Draft)"
  shows "\<exists>e. submit env s actor idp = (Inl e, s) \<and> submit env' t actor idp = (Inl e, t)"
  using assms by (auto simp: submit_def split: id_param.splits option.splits)

lemma submit_equiv:
  assumes e: "same_but_audit env env'" and s: "without_audit s = without_audit t"
  shows "audit_equiv (submit env s actor idp) (submit env' t actor idp)"
proof (cases "\<exists>rid pe. idp = ObjectId rid \<and> findById (personal_expenses s) rid = Some pe
            \<and> pe_user pe = u_id actor \<and> pe_status pe = Draft")
  case False
  have pes: "personal_expenses s = personal_expenses t" using sim_fields(2)[OF s] .
  from submit_early_eq[OF pes False, of env env'] obtain err where
    "submit env s actor idp = (Inl err, s)" "submit env' t actor idp = (Inl err, t)"
    by blast
  then show ?thesis using s by (simp add: audit_equiv_def)
next
  case True
  then obtain rid pe where g: "idp = ObjectId rid" "findById (personal_expenses s) rid = Some pe"
    "pe_user pe = u_id actor" "pe_status pe = Draft" by blast
  have pes: "personal_expenses s = personal_expenses t" and us: "users s = users t"
    using sim_fields(1,2)[OF s] by simp_all
  have gt: "findById (personal_expenses t) rid = Some pe" using g(2) pes by simp
  let ?new = "pe\<lparr>pe_status := Pending\<rparr>"
  have sv: "audit_equiv (PersonalExpense_save env s pe ?new) (PersonalExpense_save env' t pe ?new)"
    using e s by (rule save_equiv)
  then have f: "fst (PersonalExpense_save env s pe ?new) = fst (PersonalExpense_save env' t pe ?new)"
    and n: "without_audit (snd (PersonalExpense_save env s pe ?new))
          = without_audit (snd (PersonalExpense_save env' t pe ?new))"
    by (simp_all add: audit_equiv_def)
  have p: "personal_expenses (snd (PersonalExpense_save env s pe ?new))
         = personal_expenses (snd (PersonalExpense_save env' t pe ?new))"
    using sim_fields(2)[OF n] .
  have n1: "without_audit (createAudit env (snd (PersonalExpense_save env s pe ?new)) a b c d)
      = without_audit (createAudit env' (snd (PersonalExpense_save env' t pe ?new)) a b c d)"
    for a b c d
    using n by (simp only: createAudit_down)
  have n2: "without_audit (notify_admins env actor q
               (createAudit env (snd (PersonalExpense_save env s pe ?new)) a b c d) admins)
      = without_audit (notify_admins env' actor q
               (createAudit env' (snd (PersonalExpense_save env' t pe ?new)) a b c d) admins)"
    for a b c d q admins
    using e n1 by (rule notify_admins_equiv)
  show ?thesis
    unfolding g(1) submit_unfold[OF g(2-4)] submit_unfold[OF gt g(3-4)] us
    by (rule audit_equivI) (simp_all only: fst_conv snd_conv f p n2)
qed

lemma create_equiv:
  assumes e: "same_but_audit env env'" and s: "without_audit s = without_audit t"
  shows "audit_equiv (create env s actor body) (create env' t actor body)"
proof -
  have nw: "now env = now env'" "new_id env = new_id env'"
    using e by (simp_all add: same_but_audit_def)
  have pes: "personal_expenses s = personal_expenses t" using sim_fields(2)[OF s] .
  have up: "without_audit (s\<lparr>personal_expenses := x\<rparr>) = without_audit (t\<lparr>personal_expenses := x\<rparr>)" for x
    using s by (simp only: without_audit_update)
  show ?thesis
    using s up
    by (auto simp: create_def audit_equiv_def Let_def nw pes split: option.splits)
qed


text \<open>
  Claim C8. A failed audit write is swallowed by \<^verbatim>\<open>createAudit\<close>: it returns, with the state it
  was given. And the fate of the audit writes reaches nothing else: run create, edit, submit,
  decide or cancel in two surroundings that differ only in which audit writes go through, from
  the same database; the two answers are equal and the two databases agree on every collection
  but the audit log.
\<close>

theorem C8_audit_failure_contained:
  "(\<not> audit_ok env \<lparr>al_entity_type = et, al_entity_id = ei, al_action = ac, al_performed_by = pb,
                      al_timestamp = now env\<rparr> \<longrightarrow>
      createAudit env st et ei ac pb = st)
   \<and> (same_but_audit env env' \<longrightarrow>
        fst (create env st actor cb) = fst (create env' st actor cb)
        \<and> without_audit (snd (create env st actor cb)) = without_audit (snd (create env' st actor cb))
        \<and> fst (edit env st actor idp eb) = fst (edit env' st actor idp eb)
        \<and> without_audit (snd (edit env st actor idp eb)) = without_audit (snd (edit env' st actor idp eb))
        \<and> fst (submit env st actor idp) = fst (submit env' st actor idp)
        \<and> without_audit (snd (submit env st actor idp)) = without_audit (snd (submit env' st actor idp))
        \<and> fst (decide env st actor idp db) = fst (decide env' st actor idp db)
        \<and> without_audit (snd (decide env st actor idp db)) = without_audit (snd (decide env' st actor idp db))
        \<and> fst (cancel env st actor idp) = fst (cancel env' st actor idp)
        \<and> without_audit (snd (cancel env st actor idp)) = without_audit (snd (cancel env' st actor idp)))"
proof -
  have A: "\<not> audit_ok env \<lparr>al_entity_type = et, al_entity_id = ei, al_action = ac, al_performed_by = pb,
                      al_timestamp = now env\<rparr> \<longrightarrow>
      createAudit env st et ei ac pb = st"
    by (simp add: createAudit_def Let_def)
  have B: "fst (create env st actor cb) = fst (create env' st actor cb)
        \<and> without_audit (snd (create env st actor cb)) = without_audit (snd (create env' st actor cb))
        \<and> fst (edit env st actor idp eb) = fst (edit env' st actor idp eb)
        \<and> without_audit (snd (edit env st actor idp eb)) = without_audit (snd (edit env' st actor idp eb))
        \<and> fst (submit env st actor idp) = fst (submit env' st actor idp)
        \<and> without_audit (snd (submit env st actor idp)) = without_audit (snd (submit env' st actor idp))
        \<and> fst (decide env st actor idp db) = fst (decide env' st actor idp db)
        \<and> without_audit (snd (decide env st actor idp db)) = without_audit (snd (decide env' st actor idp db))
        \<and> fst (cancel env st actor idp) = fst (cancel env' st actor idp)
        \<and> without_audit (snd (cancel env st actor idp)) = without_audit (snd (cancel env' st actor idp))"
    if e: "same_but_audit env env'"
    using create_equiv[OF e refl, of st actor cb] edit_equiv[OF e refl, of st actor idp eb]
      submit_equiv[OF e refl, of st actor idp] decide_equiv[OF e refl, of st actor idp db]
      cancel_equiv[OF e refl, of st actor idp]
    by (simp only: audit_equiv_def) 
  from B have B': "same_but_audit env env' \<longrightarrow>
        fst (create env st actor cb) = fst (create env' st actor cb)
        \<and> without_audit (snd (create env st actor cb)) = without_audit (snd (create env' st actor cb))
        \<and> fst (edit env st actor idp eb) = fst (edit env' st actor idp eb)
        \<and> without_audit (snd (edit env st actor idp eb)) = without_audit (snd (edit env' st actor idp eb))
        \<and> fst (submit env st actor idp) = fst (submit env' st actor idp)
        \<and> without_audit (snd (submit env st actor idp)) = without_audit (snd (submit env' st actor idp))
        \<and> fst (decide env st actor idp db) = fst (decide env' st actor idp db)
        \<and> without_audit (snd (decide env st actor idp db)) = without_audit (snd (decide env' st actor idp db))
        \<and> fst (cancel env st actor idp) = fst (cancel env' st actor idp)
        \<and> without_audit (snd (cancel env st actor idp)) = without_audit (snd (cancel env' st actor idp))"
    by (rule impI)
  show ?thesis by (rule conjI[OF A B'])
qed


lemma status_of_without_audit: "status_of (without_audit st) rid = status_of st rid"
  by (simp add: status_of_def)

theorem C8_audit_failure_contained_witness:
  "same_but_audit ex_env (audit_down ex_env)
   \<and> \<not> audit_ok (audit_down ex_env)
         \<lparr>al_entity_type = ''personal_expense'', al_entity_id = 1, al_action = ''submit'',
          al_performed_by = Some 10, al_timestamp = now (audit_down ex_env)\<rparr>
   \<and> createAudit (audit_down ex_env) ex_state ''personal_expense'' 1 ''submit'' (Some 10) = ex_state
   \<and> fst (decide (audit_down ex_env) ex_state_voted ex_adminB (ObjectId 1) (approve_body (Fin 101)))
        = fst (decide ex_env ex_state_voted ex_adminB (ObjectId 1) (approve_body (Fin 101)))
   \<and> status_of (snd (decide (audit_down ex_env) ex_state_voted ex_adminB (ObjectId 1) (approve_body (Fin 101)))) 1
        = Some Approved
   \<and> length (expense_entries
        (snd (decide (audit_down ex_env) ex_state_voted ex_adminB (ObjectId 1) (approve_body (Fin 101))))) = 1
   \<and> status_of (snd (cancel (audit_down ex_env) ex_state ex_owner (ObjectId 1))) 1 = Some Cancelled
   \<and> status_of (snd (submit (audit_down ex_env) ex_state_draft ex_owner (ObjectId 2))) 2 = Some Pending
   \<and> fst (edit (audit_down ex_env) ex_state_draft ex_owner (ObjectId 2) ex_edit_body)
        = fst (edit ex_env ex_state_draft ex_owner (ObjectId 2) ex_edit_body)
   \<and> length (personal_expenses (snd (create (audit_down ex_env) ex_state ex_owner ex_create_body))) = 2"
proof -
  have sb: "same_but_audit ex_env (audit_down ex_env)" by (simp add: same_but_audit_def)
  have na: "\<not> audit_ok (audit_down ex_env)
         \<lparr>al_entity_type = ''personal_expense'', al_entity_id = 1, al_action = ''submit'',
          al_performed_by = Some 10, al_timestamp = now (audit_down ex_env)\<rparr>"
    by simp
  note D = C8_audit_failure_contained[where env=ex_env and env'="audit_down ex_env"
      and st=ex_state_voted and actor=ex_adminB and idp="ObjectId 1" and db="approve_body (Fin 101)"]
  note C = C8_audit_failure_contained[where env=ex_env and env'="audit_down ex_env"
      and st=ex_state and actor=ex_owner and idp="ObjectId 1" and cb=ex_create_body]
  note S = C8_audit_failure_contained[where env=ex_env and env'="audit_down ex_env"
      and st=ex_state_draft and actor=ex_owner and idp="ObjectId 2" and eb=ex_edit_body]
  note A = C8_audit_failure_contained[where env="audit_down ex_env" and st=ex_state
      and et="''personal_expense''" and ei=1 and ac="''submit''" and pb="Some 10"]
  have 1: "createAudit (audit_down ex_env) ex_state ''personal_expense'' 1 ''submit'' (Some 10) = ex_state"
    using A na by simp
  have 2: "fst (decide (audit_down ex_env) ex_state_voted ex_adminB (ObjectId 1) (approve_body (Fin 101)))
        = fst (decide ex_env ex_state_voted ex_adminB (ObjectId 1) (approve_body (Fin 101)))"
    using D sb by simp
  have dn: "without_audit (snd (decide (audit_down ex_env) ex_state_voted ex_adminB (ObjectId 1) (approve_body (Fin 101))))
        = without_audit (snd (decide ex_env ex_state_voted ex_adminB (ObjectId 1) (approve_body (Fin 101))))"
    using D sb by simp
  have "status_of (snd (decide ex_env ex_state_voted ex_adminB (ObjectId 1) (approve_body (Fin 101)))) 1
        = Some Approved"
    by (simp add: ex_defs ex_rowA_def ex_state_voted_def decide_unfold status_of_def Let_def)
  then have 3: "status_of (snd (decide (audit_down ex_env) ex_state_voted ex_adminB (ObjectId 1) (approve_body (Fin 101)))) 1
        = Some Approved"
    using arg_cong[OF dn, of "\<lambda>s. status_of s 1"] by (simp only: status_of_without_audit)
  have "length (expense_entries (snd (decide ex_env ex_state_voted ex_adminB (ObjectId 1) (approve_body (Fin 101))))) = 1"
    by (simp add: ex_defs ex_rowA_def ex_state_voted_def decide_unfold Let_def)
  then have 4: "length (expense_entries
        (snd (decide (audit_down ex_env) ex_state_voted ex_adminB (ObjectId 1) (approve_body (Fin 101))))) = 1"
    using arg_cong[OF dn, of expense_entries] by (simp only: without_audit_fields)
  have cn: "without_audit (snd (cancel (audit_down ex_env) ex_state ex_owner (ObjectId 1)))
        = without_audit (snd (cancel ex_env ex_state ex_owner (ObjectId 1)))"
    using C sb by simp
  have "status_of (snd (cancel ex_env ex_state ex_owner (ObjectId 1))) 1 = Some Cancelled"
    by (simp add: ex_defs cancel_def findById_def PersonalExpense_save_def createAudit_def
        status_of_def Let_def)
  then have 5: "status_of (snd (cancel (audit_down ex_env) ex_state ex_owner (ObjectId 1))) 1 = Some Cancelled"
    using arg_cong[OF cn, of "\<lambda>s. status_of s 1"] by (simp only: status_of_without_audit)
  have sn: "without_audit (snd (submit (audit_down ex_env) ex_state_draft ex_owner (ObjectId 2)))
        = without_audit (snd (submit ex_env ex_state_draft ex_owner (ObjectId 2)))"
    using S sb by simp
  have "status_of (snd (submit ex_env ex_state_draft ex_owner (ObjectId 2))) 2 = Some Pending"
    by (simp add: ex_defs ex_state_draft_def ex_draft_def submit_def findById_def
        PersonalExpense_save_def status_of_def Let_def)
  then have 6: "status_of (snd (submit (audit_down ex_env) ex_state_draft ex_owner (ObjectId 2))) 2 = Some Pending"
    using arg_cong[OF sn, of "\<lambda>s. status_of s 2"] by (simp only: status_of_without_audit)
  have 7: "fst (edit (audit_down ex_env) ex_state_draft ex_owner (ObjectId 2) ex_edit_body)
        = fst (edit ex_env ex_state_draft ex_owner (ObjectId 2) ex_edit_body)"
    using S sb by simp
  have crn: "without_audit (snd (create (audit_down ex_env) ex_state ex_owner ex_create_body))
        = without_audit (snd (create ex_env ex_state ex_owner ex_create_body))"
    using C sb by simp
  have "length (personal_expenses (snd (create ex_env ex_state ex_owner ex_create_body))) = 2"
    by (simp add: ex_defs ex_create_body_def create_def castable_def castable_opt_def
        createAudit_def Let_def)
  then have 8: "length (personal_expenses (snd (create (audit_down ex_env) ex_state ex_owner ex_create_body))) = 2"
    using arg_cong[OF crn, of personal_expenses] by (simp only: without_audit_fields)
  show ?thesis using sb na 1 2 3 4 5 6 7 8 by (intro conjI)
qed



end
